theory Spec2Isabelle
  imports Main "HOL-Library.Multiset"
begin

section \<open>Data model (src/model/user.model.js)\<close>

text \<open>
  The embedding follows the Express application: the relational table behind the
  Sequelize model \<open>User\<close> is a list of rows, the process-wide \<open>tokenBlacklist\<close>
  is a set of tokens, and every controller is a function from the state and the request
  to a response and the new state. Clock readings (\<open>Date.now()\<close>, milliseconds) and
  the UUID drawn for a new row are arguments of the operation that reads them.

  The store raises the errors that the declared column types give rise to: a primary key
  that is no UUID, a string longer than its \<open>VARCHAR\<close> column, a \<open>tokenVersion\<close>
  outside the 32-bit \<open>INTEGER\<close> range, a repeated e-mail address or primary key. It
  does not lose its connection. Strings are ASCII without the character NUL (which the
  store refuses), the \<open>message\<close> and \<open>success\<close>
  entries of a response body are left out (\<open>success\<close> is true exactly on the 2xx
  answers), the column \<open>updatedAt\<close> and the file system behind the profile pictures are
  not part of the state. The numbers of the source are doubles; the integers of the model
  agree with them as long as they are safe integers (below \<open>2^53\<close> in absolute value).
\<close>

text \<open>One entry of the JSONB column \<open>youtubeLinks\<close>. A stored entry may lack any
  property, so each one is optional; \<open>addedAt\<close> is the instant (milliseconds since the
  epoch) that the stored ISO string denotes.\<close>

record link =
  lid :: "string option"
  url :: "string option"
  title :: "string option"
  addedAt :: "int option"

text \<open>A JSON web token, symbolically: the key it was signed with and a payload with
  the claims that the program writes and reads (\<open>userId\<close>, \<open>version\<close>) and with
  \<open>iat\<close> and \<open>exp\<close>, both in seconds. Signing is deterministic, so two tokens are the
  same string exactly when key and payload agree. \<open>Opaque s\<close> is a string \<open>s\<close> that
  \<open>jwt.verify\<close> rejects whatever the key and the time (no serialised token, an
  algorithm that is not allowed).\<close>

datatype token =
  Jwt (signedWith: string) (userId: "string option") (version: "int option")
      (iat: int) (expiresAt: int)
  | Opaque string

record user =
  uid :: string
  name :: string
  email :: string
  password :: string
  refreshToken :: "token option"
  tokenVersion :: int
  bio :: "string option"
  location :: "string option"
  profilePicture :: "string option"
  youtubeLinks :: "link list option"
  createdAt :: int

text \<open>Library functions and configuration the source calls but does not define:
  the environment variable \<open>JWT_SECRET\<close> read by the auth middleware, the e-mail
  checks of Joi and of Sequelize's \<open>isEmail\<close>, bcrypt (hashing with a fresh salt, and
  comparison), and PostgreSQL's reading of a string as a value of type \<open>uuid\<close>
  (\<open>pg_uuid s\<close>: the string is accepted).\<close>

record deps =
  JWT_SECRET :: "string option"
  joi_email :: "string \<Rightarrow> bool"
  isEmail :: "string \<Rightarrow> bool"
  bcrypt_hash :: "string \<Rightarrow> string"
  bcrypt_compare :: "string \<Rightarrow> string \<Rightarrow> bool"
  pg_uuid :: "string \<Rightarrow> bool"

record state =
  users :: "user list"
  tokenBlacklist :: "token set"
  timers :: "(int \<times> token) list"

datatype error =
  HttpError nat
  | SequelizeValidationError
  | SequelizeUniqueConstraintError
  | SequelizeDatabaseError
  | TypeError

subsection \<open>The table\<close>

text \<open>The row with a given primary key; no row has the key null.\<close>

definition row :: "state \<Rightarrow> string option \<Rightarrow> user option" where
  "row st pk =
     (case pk of None \<Rightarrow> None | Some i \<Rightarrow> find (\<lambda>u. uid u = i) (users st))"

text \<open>The sizes of the columns: \<open>STRING(n)\<close> is \<open>VARCHAR(n)\<close> (255 when no size is
  given), \<open>INTEGER\<close> has 32 bits; \<open>TEXT\<close> and \<open>JSONB\<close> take any value.\<close>

definition varchar :: "nat \<Rightarrow> string \<Rightarrow> bool" where
  "varchar n s = (length s \<le> n)"

definition int4 :: "int \<Rightarrow> bool" where
  "int4 n = (- 2147483648 \<le> n \<and> n \<le> 2147483647)"

text \<open>An \<open>INSERT\<close> of a row is accepted when its key is a UUID and every column fits.\<close>

definition insert_fits :: "deps \<Rightarrow> user \<Rightarrow> bool" where
  "insert_fits d u =
     (pg_uuid d (uid u) \<and> varchar 50 (name u) \<and> varchar 255 (email u)
      \<and> varchar 255 (password u) \<and> int4 (tokenVersion u)
      \<and> (case location u of None \<Rightarrow> True | Some l \<Rightarrow> varchar 100 l)
      \<and> (case profilePicture u of None \<Rightarrow> True | Some p \<Rightarrow> varchar 255 p))"

text \<open>An \<open>UPDATE\<close> writes the columns that changed; it is accepted when each of them
  fits.\<close>

definition update_fits :: "user \<Rightarrow> user \<Rightarrow> bool" where
  "update_fits old u =
     ((name u = name old \<or> varchar 50 (name u))
      \<and> (email u = email old \<or> varchar 255 (email u))
      \<and> (password u = password old \<or> varchar 255 (password u))
      \<and> (tokenVersion u = tokenVersion old \<or> int4 (tokenVersion u))
      \<and> (location u = location old
           \<or> (case location u of None \<Rightarrow> True | Some l \<Rightarrow> varchar 100 l))
      \<and> (profilePicture u = profilePicture old
           \<or> (case profilePicture u of None \<Rightarrow> True | Some p \<Rightarrow> varchar 255 p)))"

subsection \<open>The ORM operations used by the controllers\<close>

text \<open>\<open>User.findByPk(key)\<close>: null for a null or undefined key; a key that is no UUID
  makes the query fail with a database error.\<close>

definition findByPk :: "deps \<Rightarrow> state \<Rightarrow> string option \<Rightarrow> error + user option" where
  "findByPk d st pk =
     (case pk of
        None \<Rightarrow> Inr None
      | Some i \<Rightarrow> if pg_uuid d i then Inr (row st (Some i)) else Inl SequelizeDatabaseError)"

definition findOne_email :: "state \<Rightarrow> string \<Rightarrow> user option" where
  "findOne_email st e = find (\<lambda>u. email u = e) (users st)"

text \<open>The validators declared on the columns: \<open>name\<close> has 3 to 50 characters,
  \<open>email\<close> passes \<open>isEmail\<close>, \<open>password\<close> has at least 8 characters.\<close>

definition valid_name :: "string \<Rightarrow> bool" where
  "valid_name n = (3 \<le> length n \<and> length n \<le> 50)"

definition valid_password :: "string \<Rightarrow> bool" where
  "valid_password p = (8 \<le> length p)"

text \<open>Hook \<open>beforeCreate\<close>: a non-empty password is replaced by its hash.\<close>

definition beforeCreate :: "deps \<Rightarrow> user \<Rightarrow> user" where
  "beforeCreate d u =
     (if password u \<noteq> [] then u\<lparr>password := bcrypt_hash d (password u)\<rparr> else u)"

text \<open>Hook \<open>beforeUpdate\<close>: \<open>user.changed("password")\<close> compares the instance with
  the row it was loaded from (\<open>old\<close>). A changed password is hashed and
  \<open>tokenVersion\<close> is incremented.\<close>

definition beforeUpdate :: "deps \<Rightarrow> user \<Rightarrow> user \<Rightarrow> user" where
  "beforeUpdate d old u =
     (if password u \<noteq> password old
      then u\<lparr>password := bcrypt_hash d (password u), tokenVersion := tokenVersion u + 1\<rparr>
      else u)"

text \<open>\<open>User.create({name, email, password})\<close>: column validation, the hook, then the
  insert with the column defaults; \<open>email\<close> and the primary key are unique.\<close>

definition User_create ::
  "deps \<Rightarrow> state \<Rightarrow> string \<Rightarrow> string \<Rightarrow> string \<Rightarrow> string \<Rightarrow> int \<Rightarrow> error + (user \<times> state)" where
  "User_create d st n e p uuid now =
     (if \<not> (valid_name n \<and> isEmail d e \<and> valid_password p) then Inl SequelizeValidationError
      else
        let u = beforeCreate d
                  \<lparr>uid = uuid, name = n, email = e, password = p, refreshToken = None,
                   tokenVersion = 0, bio = None, location = None, profilePicture = None,
                   youtubeLinks = Some [], createdAt = now\<rparr>
        in if \<not> insert_fits d u then Inl SequelizeDatabaseError
           else if findOne_email st e = None \<and> row st (Some uuid) = None
           then Inr (u, st\<lparr>users := users st @ [u]\<rparr>)
           else Inl SequelizeUniqueConstraintError)"

text \<open>\<open>user.save()\<close> on an instance loaded from the table: the changed columns are
  validated, \<open>beforeUpdate\<close> runs, and the row with the instance's primary key is
  overwritten, unless a changed column does not fit or the new e-mail address is taken.
  It returns the instance as the hook left it.\<close>

definition user_save :: "deps \<Rightarrow> state \<Rightarrow> user \<Rightarrow> error + (user \<times> state)" where
  "user_save d st u =
     (case row st (Some (uid u)) of
        None \<Rightarrow> Inr (u, st)
      | Some old \<Rightarrow>
          if (name u \<noteq> name old \<and> \<not> valid_name (name u))
             \<or> (email u \<noteq> email old \<and> \<not> isEmail d (email u))
             \<or> (password u \<noteq> password old \<and> \<not> valid_password (password u))
          then Inl SequelizeValidationError
          else
            let u' = beforeUpdate d old u
            in if \<not> update_fits old u' then Inl SequelizeDatabaseError
               else if email u \<noteq> email old \<and> findOne_email st (email u) \<noteq> None
               then Inl SequelizeUniqueConstraintError
               else Inr (u', st\<lparr>users := map (\<lambda>r. if uid r = uid u' then u' else r) (users st)\<rparr>))"

text \<open>\<open>user.update(values)\<close>: the given columns are set on the instance, which is then
  saved. An absent key (\<open>None\<close>) leaves the column as it is.\<close>

record update_values =
  v_name :: "string option"
  v_email :: "string option"
  v_password :: "string option"
  v_bio :: "string option option"
  v_location :: "string option option"
  v_profilePicture :: "string option"
  v_youtubeLinks :: "link list option"

definition no_values :: update_values where
  "no_values = \<lparr>v_name = None, v_email = None, v_password = None, v_bio = None,
     v_location = None, v_profilePicture = None, v_youtubeLinks = None\<rparr>"

definition set_values :: "user \<Rightarrow> update_values \<Rightarrow> user" where
  "set_values u v =
     u\<lparr>name := (case v_name v of None \<Rightarrow> name u | Some x \<Rightarrow> x),
       email := (case v_email v of None \<Rightarrow> email u | Some x \<Rightarrow> x),
       password := (case v_password v of None \<Rightarrow> password u | Some x \<Rightarrow> x),
       bio := (case v_bio v of None \<Rightarrow> bio u | Some x \<Rightarrow> x),
       location := (case v_location v of None \<Rightarrow> location u | Some x \<Rightarrow> x),
       profilePicture := (case v_profilePicture v of None \<Rightarrow> profilePicture u | Some x \<Rightarrow> Some x),
       youtubeLinks := (case v_youtubeLinks v of None \<Rightarrow> youtubeLinks u | Some x \<Rightarrow> Some x)\<rparr>"

definition user_update :: "deps \<Rightarrow> state \<Rightarrow> user \<Rightarrow> update_values \<Rightarrow> error + (user \<times> state)" where
  "user_update d st u v = user_save d st (set_values u v)"

section \<open>Tokens (jsonwebtoken as used by the controllers)\<close>

text \<open>The key that src/controllers/auth.controller.js signs and verifies with.\<close>

definition signingSecret :: string where
  "signingSecret = ''04058abefa84d9a7109e55111830e7e1d01474d8d10e667b8d1b9ba38b55447c''"

text \<open>\<open>jwt.sign(payload, key, {expiresIn})\<close> at clock reading \<open>now\<close> (milliseconds):
  \<open>iat\<close> is the clock in seconds and \<open>exp\<close> is \<open>iat\<close> plus the lifetime.\<close>

definition jwt_sign :: "string option \<Rightarrow> int option \<Rightarrow> string \<Rightarrow> int \<Rightarrow> int \<Rightarrow> token" where
  "jwt_sign i v key lifetime now = Jwt key i v (now div 1000) (now div 1000 + lifetime)"

definition one_day :: int where
  "one_day = 86400"

definition seven_days :: int where
  "seven_days = 604800"

datatype jwt_error = JsonWebTokenError | TokenExpiredError

text \<open>\<open>jwt.verify(token, secret)\<close>: a string that is no token, a missing or empty
  secret and a signature made with another key raise \<open>JsonWebTokenError\<close>; a token
  whose \<open>exp\<close> is not after the clock raises \<open>TokenExpiredError\<close>; otherwise the
  payload is returned.\<close>

definition jwt_verify :: "token \<Rightarrow> string option \<Rightarrow> int \<Rightarrow> jwt_error + token" where
  "jwt_verify t secret now =
     (case t of
        Opaque s \<Rightarrow> Inl JsonWebTokenError
      | Jwt k i v ia ex \<Rightarrow>
          (case secret of
             None \<Rightarrow> Inl JsonWebTokenError
           | Some s \<Rightarrow>
               if s = [] then Inl JsonWebTokenError
               else if k \<noteq> s then Inl JsonWebTokenError
               else if ex \<le> now div 1000 then Inl TokenExpiredError
               else Inr t))"

section \<open>Requests and responses\<close>

text \<open>The \<open>Authorization\<close> header as the source reads it
  (\<open>startsWith("Bearer")\<close>, then \<open>split(" ")[1].trim()\<close>): \<open>Bearer t\<close> is a header
  whose second space-separated part is \<open>t\<close> (possibly the empty string);
  \<open>BearerBare\<close> starts with "Bearer" and contains no space, so that \<open>split(" ")[1]\<close>
  is undefined and \<open>.trim()\<close> throws; \<open>OtherScheme\<close> is any other header value.\<close>

datatype authorization = Bearer token | BearerBare | OtherScheme string

text \<open>A query-string value is read twice by \<open>getAllContent\<close>: by Joi's
  \<open>number().integer()\<close> conversion during validation and by \<open>parseInt\<close> afterwards
  (\<open>getUsers\<close> uses \<open>parseInt\<close> only). The model carries both readings of the string:
  \<open>joi_integer\<close> is \<open>None\<close> when Joi rejects the string as a number or as an integer,
  \<open>parseInt\<close> is \<open>None\<close> for \<open>NaN\<close>. So the string \<open>1e1\<close> is the value with
  the readings 10 and 1. \<open>numeral_q n\<close> is the decimal numeral of \<open>n\<close>: Joi reads it
  as \<open>n\<close> when \<open>n\<close> is a safe integer and rejects it as unsafe otherwise; \<open>parseInt\<close>
  reads it as \<open>n\<close> (for an unsafe \<open>n\<close> the source gets the nearest double instead,
  which the model does not tell from \<open>n\<close>; the feed validates before it parses).\<close>

record query_value =
  joi_integer :: "int option"
  parseInt :: "int option"

definition safe_integer :: "int \<Rightarrow> bool" where
  "safe_integer n = (- 9007199254740991 \<le> n \<and> n \<le> 9007199254740991)"

definition numeral_q :: "int \<Rightarrow> query_value" where
  "numeral_q n = \<lparr>joi_integer = (if safe_integer n then Some n else None), parseInt = Some n\<rparr>"

text \<open>A request as the handlers read it. \<open>req_user\<close> is \<open>req.user\<close>, by its id.
  The body is an object, possibly without keys; the fields below hold its string values.
  \<open>body_unknown_keys\<close> says that the body has a key other than the ones of this
  record, or a value that is no string, and \<open>query_unknown_keys\<close> says the same of
  the query string; Joi rejects both. A
  \<open>body_refreshToken\<close> that is no string counts as the string that behaves like it
  (\<open>Opaque\<close>, empty when the value is falsy). \<open>upload_error\<close> says that the upload
  middleware raised an error; \<open>file_path\<close> is \<open>req.file.path\<close>.\<close>

record request =
  authorization :: "authorization option"
  req_user :: "string option"
  params_id :: string
  params_linkId :: string
  query_page :: "query_value option"
  query_limit :: "query_value option"
  query_sortBy :: "string option"
  body_name :: "string option"
  body_email :: "string option"
  body_password :: "string option"
  body_bio :: "string option"
  body_location :: "string option"
  body_youtubeUrl :: "string option"
  body_title :: "string option"
  body_refreshToken :: "token option"
  file_path :: "string option"
  upload_error :: bool
  body_unknown_keys :: bool
  query_unknown_keys :: bool

definition empty_request :: request where
  "empty_request =
     \<lparr>authorization = None, req_user = None, params_id = [], params_linkId = [],
      query_page = None, query_limit = None, query_sortBy = None,
      body_name = None, body_email = None, body_password = None, body_bio = None,
      body_location = None, body_youtubeUrl = None, body_title = None,
      body_refreshToken = None, file_path = None, upload_error = False,
      body_unknown_keys = False, query_unknown_keys = False\<rparr>"

text \<open>The keys of the body that have a value, and the check that a Joi object schema
  makes first: every key of the body is one that the schema lists.\<close>

definition body_keys :: "request \<Rightarrow> string list" where
  "body_keys req =
     (if body_name req = None then [] else [''name''])
     @ (if body_email req = None then [] else [''email''])
     @ (if body_password req = None then [] else [''password''])
     @ (if body_bio req = None then [] else [''bio''])
     @ (if body_location req = None then [] else [''location''])
     @ (if body_youtubeUrl req = None then [] else [''youtubeUrl''])
     @ (if body_title req = None then [] else [''title''])
     @ (if body_refreshToken req = None then [] else [''refreshToken''])"

definition only_keys :: "string list \<Rightarrow> request \<Rightarrow> bool" where
  "only_keys ks req = (list_all (\<lambda>k. k \<in> set ks) (body_keys req) \<and> \<not> body_unknown_keys req)"

datatype fieldval = Null | Str string | Num int | Tok token | Links "link list"

type_synonym json_obj = "(string \<times> fieldval) list"

record pagination =
  total :: int
  limit :: int
  totalPages :: int
  currentPage :: int
  hasNextPage :: bool
  hasPreviousPage :: bool
  nextPage :: "int option"
  previousPage :: "int option"

record content =
  c_id :: string
  c_title :: string
  c_url :: string
  c_addedAt :: int
  c_user :: json_obj

datatype payload =
  NoData
  | AuthData token token json_obj
  | AccessData token
  | UserList "json_obj list" pagination
  | UserData json_obj
  | LinkAdded link json_obj
  | ContentPage "content list" pagination

record response =
  status :: nat
  data :: payload

definition reply :: "nat \<Rightarrow> payload \<Rightarrow> response" where
  "reply s p = \<lparr>status = s, data = p\<rparr>"

text \<open>JavaScript truthiness of an optional string and of an optional token: absent
  and the empty string are falsy.\<close>

definition truthy :: "string option \<Rightarrow> bool" where
  "truthy x = (case x of None \<Rightarrow> False | Some s \<Rightarrow> s \<noteq> [])"

definition truthy_token :: "token option \<Rightarrow> bool" where
  "truthy_token x = (case x of None \<Rightarrow> False | Some t \<Rightarrow> t \<noteq> Opaque [])"

definition str_or_null :: "string option \<Rightarrow> fieldval" where
  "str_or_null x = (case x of None \<Rightarrow> Null | Some s \<Rightarrow> Str s)"

text \<open>\<open>instance.toJSON()\<close> with every column loaded.\<close>

definition toJSON :: "user \<Rightarrow> json_obj" where
  "toJSON u =
     [(''id'', Str (uid u)), (''name'', Str (name u)), (''email'', Str (email u)),
      (''password'', Str (password u)),
      (''refreshToken'', (case refreshToken u of None \<Rightarrow> Null | Some t \<Rightarrow> Tok t)),
      (''tokenVersion'', Num (tokenVersion u)),
      (''bio'', str_or_null (bio u)), (''location'', str_or_null (location u)),
      (''profilePicture'', str_or_null (profilePicture u)),
      (''youtubeLinks'', (case youtubeLinks u of None \<Rightarrow> Null | Some ls \<Rightarrow> Links ls)),
      (''createdAt'', Num (createdAt u))]"

text \<open>\<open>attributes: {exclude: ks}\<close> and \<open>delete obj.k\<close> drop keys; an assignment
  \<open>obj.k = v\<close> overwrites the key or adds it at the end.\<close>

definition exclude :: "string list \<Rightarrow> json_obj \<Rightarrow> json_obj" where
  "exclude ks obj = filter (\<lambda>kv. fst kv \<notin> set ks) obj"

definition delete :: "string \<Rightarrow> json_obj \<Rightarrow> json_obj" where
  "delete k obj = filter (\<lambda>kv. fst kv \<noteq> k) obj"

definition assign :: "string \<Rightarrow> fieldval \<Rightarrow> json_obj \<Rightarrow> json_obj" where
  "assign k v obj =
     (if k \<in> set (map fst obj) then map (\<lambda>kv. if fst kv = k then (k, v) else kv) obj
      else obj @ [(k, v)])"

definition sensitive :: "string list" where
  "sensitive = [''password'', ''refreshToken'', ''tokenVersion'']"

definition profilePictureUrl :: "string \<Rightarrow> string" where
  "profilePictureUrl i = ''/api/v1/users/'' @ i @ ''/profile-picture''"

text \<open>The error middleware: the status of the answer to \<open>next(error)\<close>.\<close>

definition errorMiddleware :: "error \<Rightarrow> response" where
  "errorMiddleware err =
     reply (case err of
              HttpError n \<Rightarrow> n
            | SequelizeUniqueConstraintError \<Rightarrow> 409
            | SequelizeValidationError \<Rightarrow> 400
            | SequelizeDatabaseError \<Rightarrow> 500
            | TypeError \<Rightarrow> 500) NoData"

section \<open>Authentication (src/controllers/auth.controller.js, src/middlewares/auth.middleware.js)\<close>

definition extractToken :: "request \<Rightarrow> error + token option" where
  "extractToken req =
     (case authorization req of
        None \<Rightarrow> Inr None
      | Some (OtherScheme s) \<Rightarrow> Inr None
      | Some BearerBare \<Rightarrow> Inl TypeError
      | Some (Bearer t) \<Rightarrow> Inr (Some t))"

text \<open>\<open>generateTokens(user)\<close>: the access token carries \<open>userId\<close> and lives one day,
  the refresh token carries \<open>userId\<close> and \<open>version\<close> and lives seven days; the refresh
  token is stored on the row.\<close>

definition generateTokens ::
  "deps \<Rightarrow> state \<Rightarrow> user \<Rightarrow> int \<Rightarrow> error + ((token \<times> token) \<times> user \<times> state)" where
  "generateTokens d st u now =
     (let accessToken = jwt_sign (Some (uid u)) None signingSecret one_day now;
          refreshTok = jwt_sign (Some (uid u)) (Some (tokenVersion u)) signingSecret seven_days now
      in case user_save d st (u\<lparr>refreshToken := Some refreshTok\<rparr>) of
           Inl e \<Rightarrow> Inl e
         | Inr (u', st') \<Rightarrow> Inr ((accessToken, refreshTok), u', st'))"

text \<open>Joi schemas \<open>register\<close> and \<open>login\<close>: True when validation reports no error.\<close>

definition validate_register :: "deps \<Rightarrow> request \<Rightarrow> bool" where
  "validate_register d req =
     ((case body_name req of None \<Rightarrow> False | Some n \<Rightarrow> 3 \<le> length n \<and> length n \<le> 50)
      \<and> (case body_email req of None \<Rightarrow> False | Some e \<Rightarrow> e \<noteq> [] \<and> joi_email d e)
      \<and> (case body_password req of None \<Rightarrow> False | Some p \<Rightarrow> 8 \<le> length p)
      \<and> only_keys [''name'', ''email'', ''password''] req)"

definition validate_login :: "deps \<Rightarrow> request \<Rightarrow> bool" where
  "validate_login d req =
     ((case body_email req of None \<Rightarrow> False | Some e \<Rightarrow> e \<noteq> [] \<and> joi_email d e)
      \<and> (case body_password req of None \<Rightarrow> False | Some p \<Rightarrow> p \<noteq> [])
      \<and> only_keys [''email'', ''password''] req)"

definition signUp :: "deps \<Rightarrow> state \<Rightarrow> request \<Rightarrow> string \<Rightarrow> int \<Rightarrow> response \<times> state" where
  "signUp d st req uuid now =
     (if \<not> validate_register d req then (reply 400 NoData, st)
      else
        case (body_name req, body_email req, body_password req) of
          (Some n, Some e, Some p) \<Rightarrow>
            (case findOne_email st e of
               Some existingUser \<Rightarrow> (reply 409 NoData, st)
             | None \<Rightarrow>
                 (case User_create d st n e p uuid now of
                    Inl err \<Rightarrow> (reply 500 NoData, st)
                  | Inr (newUser, st1) \<Rightarrow>
                      (case generateTokens d st1 newUser now of
                         Inl err \<Rightarrow> (reply 500 NoData, st1)
                       | Inr ((accessToken, refreshTok), newUser', st2) \<Rightarrow>
                           (reply 201
                              (AuthData accessToken refreshTok
                                 (delete ''refreshToken'' (delete ''password'' (toJSON newUser')))),
                            st2))))
        | _ \<Rightarrow> (reply 500 NoData, st))"

definition signIn :: "deps \<Rightarrow> state \<Rightarrow> request \<Rightarrow> int \<Rightarrow> response \<times> state" where
  "signIn d st req now =
     (if \<not> validate_login d req then (reply 400 NoData, st)
      else
        case (body_email req, body_password req) of
          (Some e, Some p) \<Rightarrow>
            (case findOne_email st e of
               None \<Rightarrow> (reply 404 NoData, st)
             | Some u \<Rightarrow>
                 if \<not> bcrypt_compare d p (password u) then (reply 401 NoData, st)
                 else
                   (case generateTokens d st u now of
                      Inl err \<Rightarrow> (reply 500 NoData, st)
                    | Inr ((accessToken, refreshTok), u', st') \<Rightarrow>
                        (reply 200
                           (AuthData accessToken refreshTok
                              (delete ''refreshToken'' (delete ''password'' (toJSON u')))),
                         st')))
        | _ \<Rightarrow> (reply 500 NoData, st))"

text \<open>\<open>refreshToken\<close>: 400 without a token, 401 when verification fails, when the user
  is unknown or stores another token, and when the version differs; otherwise a new
  access token. The lookup of the user is outside the inner \<open>try\<close>, so an error it
  raises reaches the outer \<open>catch\<close>, which answers 500. Nothing is written.\<close>

definition refreshToken_handler :: "deps \<Rightarrow> state \<Rightarrow> request \<Rightarrow> int \<Rightarrow> response \<times> state" where
  "refreshToken_handler d st req now =
     (case body_refreshToken req of
        None \<Rightarrow> (reply 400 NoData, st)
      | Some t \<Rightarrow>
          (if \<not> truthy_token (Some t) then (reply 400 NoData, st)
           else
             (case jwt_verify t (Some signingSecret) now of
                Inl e \<Rightarrow> (reply 401 NoData, st)
              | Inr decoded \<Rightarrow>
                  (case findByPk d st (userId decoded) of
                     Inl err \<Rightarrow> (reply 500 NoData, st)
                   | Inr None \<Rightarrow> (reply 401 NoData, st)
                   | Inr (Some u) \<Rightarrow>
                       (if refreshToken u \<noteq> Some t then (reply 401 NoData, st)
                        else if version decoded \<noteq> Some (tokenVersion u)
                        then (reply 401 NoData, st)
                        else
                          (reply 200
                             (AccessData (jwt_sign (Some (uid u)) None signingSecret one_day now)),
                           st))))))"

text \<open>\<open>signOut\<close>: a present token is put on the blacklist; when it verifies, its
  removal is scheduled for its expiry and, if the payload names a user and \<open>req.user\<close>
  is set, that user's \<open>tokenVersion\<close> is incremented and the stored refresh token is
  cleared. Whatever is thrown after the token was blacklisted, by the verification, by
  the lookup or by the save, is swallowed by the inner \<open>catch\<close>; the answer is 200.\<close>

definition signOut :: "deps \<Rightarrow> state \<Rightarrow> request \<Rightarrow> int \<Rightarrow> response \<times> state" where
  "signOut d st req now =
     (case extractToken req of
        Inl e \<Rightarrow> (reply 500 NoData, st)
      | Inr None \<Rightarrow> (reply 200 NoData, st)
      | Inr (Some t) \<Rightarrow>
          (if \<not> truthy_token (Some t) then (reply 200 NoData, st)
           else
             (let st1 = st\<lparr>tokenBlacklist := insert t (tokenBlacklist st)\<rparr>
              in (case jwt_verify t (Some signingSecret) now of
                    Inl e \<Rightarrow> (reply 200 NoData, st1)
                  | Inr decoded \<Rightarrow>
                      (let st2 = st1\<lparr>timers := timers st1 @ [(expiresAt decoded * 1000, t)]\<rparr>
                       in (if truthy (userId decoded) \<and> req_user req \<noteq> None
                           then
                             (case findByPk d st2 (userId decoded) of
                                Inl err \<Rightarrow> (reply 200 NoData, st2)
                              | Inr None \<Rightarrow> (reply 200 NoData, st2)
                              | Inr (Some u) \<Rightarrow>
                                  (case user_save d st2
                                          (u\<lparr>tokenVersion := tokenVersion u + 1,
                                             refreshToken := None\<rparr>) of
                                     Inl e \<Rightarrow> (reply 200 NoData, st2)
                                   | Inr (u', st3) \<Rightarrow> (reply 200 NoData, st3)))
                           else (reply 200 NoData, st2)))))))"

definition isTokenBlacklisted :: "state \<Rightarrow> token \<Rightarrow> bool" where
  "isTokenBlacklisted st t = (t \<in> tokenBlacklist st)"

text \<open>The timers set by \<open>signOut\<close>: at clock reading \<open>now\<close> every due timer has removed
  its token from the blacklist (for delays within the range of a timer, which the
  lifetimes of the issued tokens are).\<close>

definition fire_timers :: "int \<Rightarrow> state \<Rightarrow> state" where
  "fire_timers now st =
     st\<lparr>tokenBlacklist := tokenBlacklist st - snd ` set (filter (\<lambda>e. fst e \<le> now) (timers st)),
        timers := filter (\<lambda>e. now < fst e) (timers st)\<rparr>"

text \<open>The middleware \<open>authorize\<close>: \<open>Inl\<close> is the answer it sends itself, \<open>Inr i\<close> is
  \<open>next()\<close> with \<open>req.user\<close> set to the user whose id is \<open>i\<close>. It verifies with
  \<open>process.env.JWT_SECRET\<close>; every error raised by the verification or by the lookup
  of the user is answered 401.\<close>

definition authorize :: "deps \<Rightarrow> state \<Rightarrow> request \<Rightarrow> int \<Rightarrow> response + string" where
  "authorize d st req now =
     (case extractToken req of
        Inl e \<Rightarrow> Inl (reply 500 NoData)
      | Inr None \<Rightarrow> Inl (reply 401 NoData)
      | Inr (Some t) \<Rightarrow>
          (if \<not> truthy_token (Some t) then Inl (reply 401 NoData)
           else if isTokenBlacklisted st t then Inl (reply 401 NoData)
           else
             (case jwt_verify t (JWT_SECRET d) now of
                Inl e \<Rightarrow> Inl (reply 401 NoData)
              | Inr decoded \<Rightarrow>
                  (if \<not> truthy (userId decoded) then Inl (reply 401 NoData)
                   else
                     (case findByPk d st (userId decoded) of
                        Inl err \<Rightarrow> Inl (reply 401 NoData)
                      | Inr None \<Rightarrow> Inl (reply 401 NoData)
                      | Inr (Some u) \<Rightarrow> Inr (uid u))))))"

text \<open>A route that runs \<open>authorize\<close> before its handler.\<close>

definition protected ::
  "deps \<Rightarrow> (state \<Rightarrow> request \<Rightarrow> response \<times> state) \<Rightarrow> state \<Rightarrow> request \<Rightarrow> int \<Rightarrow> response \<times> state" where
  "protected d handler st req now =
     (case authorize d st req now of
        Inl r \<Rightarrow> (r, st)
      | Inr i \<Rightarrow> handler st (req\<lparr>req_user := Some i\<rparr>))"

text \<open>\<open>authRouter.post("/signout", authorize, signOut)\<close>.\<close>

definition route_signout :: "deps \<Rightarrow> state \<Rightarrow> request \<Rightarrow> int \<Rightarrow> response \<times> state" where
  "route_signout d st req now = protected d (\<lambda>s r. signOut d s r now) st req now"

section \<open>Users and links (src/controllers/user.controller.js)\<close>

text \<open>\<open>order: [["created_at", "DESC"]]\<close>; rows created at the same instant keep
  their table order.\<close>

definition newest_first :: "user list \<Rightarrow> user list" where
  "newest_first us = sort_key (\<lambda>u. - createdAt u) us"

text \<open>\<open>parseInt(x) || dflt\<close>: \<open>NaN\<close> and 0 are falsy.\<close>

definition parseInt_or :: "query_value option \<Rightarrow> int \<Rightarrow> int" where
  "parseInt_or q dflt =
     (case q of
        None \<Rightarrow> dflt
      | Some v \<Rightarrow> (case parseInt v of None \<Rightarrow> dflt | Some n \<Rightarrow> if n = 0 then dflt else n))"

text \<open>\<open>Math.ceil(a / b)\<close> for integers \<open>a\<close> and \<open>b \<noteq> 0\<close>.\<close>

definition ceil_div :: "int \<Rightarrow> int \<Rightarrow> int" where
  "ceil_div a b = - ((- a) div b)"

text \<open>The user object of the read paths: the row without the sensitive columns,
  with \<open>profilePictureUrl\<close> added.\<close>

definition public_user :: "user \<Rightarrow> json_obj" where
  "public_user u =
     assign ''profilePictureUrl'' (Str (profilePictureUrl (uid u))) (exclude sensitive (toJSON u))"

text \<open>\<open>getUsers\<close>: \<open>LIMIT\<close> and \<open>OFFSET\<close> are 64-bit integers that must not be
  negative; the query fails on any other value.\<close>

definition getUsers :: "state \<Rightarrow> request \<Rightarrow> response \<times> state" where
  "getUsers st req =
     (let page = parseInt_or (query_page req) 1;
          lim = parseInt_or (query_limit req) 10;
          offset = (page - 1) * lim
      in if lim < 0 \<or> offset < 0 \<or> 9223372036854775807 < lim \<or> 9223372036854775807 < offset
         then (errorMiddleware SequelizeDatabaseError, st)
         else
           let totalUsers = int (length (users st));
               rows = take (nat lim) (drop (nat offset) (newest_first (users st)))
           in (reply 200
                 (UserList (map public_user rows)
                    \<lparr>total = totalUsers, limit = lim, totalPages = ceil_div totalUsers lim,
                     currentPage = page, hasNextPage = (offset + lim < totalUsers),
                     hasPreviousPage = (1 < page),
                     nextPage = (if offset + lim < totalUsers then Some (page + 1) else None),
                     previousPage = (if 1 < page then Some (page - 1) else None)\<rparr>),
               st))"

definition getUserById :: "deps \<Rightarrow> state \<Rightarrow> request \<Rightarrow> response \<times> state" where
  "getUserById d st req =
     (case findByPk d st (Some (params_id req)) of
        Inl err \<Rightarrow> (errorMiddleware err, st)
      | Inr None \<Rightarrow> (errorMiddleware (HttpError 404), st)
      | Inr (Some u) \<Rightarrow> (reply 200 (UserData (public_user u)), st))"

definition getProfile :: "deps \<Rightarrow> state \<Rightarrow> request \<Rightarrow> response \<times> state" where
  "getProfile d st req =
     (case req_user req of
        None \<Rightarrow> (errorMiddleware TypeError, st)
      | Some reqUserId \<Rightarrow>
          (case findByPk d st (Some reqUserId) of
             Inl err \<Rightarrow> (errorMiddleware err, st)
           | Inr None \<Rightarrow> (errorMiddleware (HttpError 404), st)
           | Inr (Some u) \<Rightarrow> (reply 200 (UserData (public_user u)), st)))"

text \<open>Joi schema \<open>updateProfile\<close>: every key is optional; \<open>name\<close> has 3 to 50
  characters, \<open>email\<close> is a non-empty e-mail address, \<open>bio\<close> is any string,
  \<open>location\<close> has at most 100 characters; no other key is allowed.\<close>

definition validate_updateProfile :: "deps \<Rightarrow> request \<Rightarrow> bool" where
  "validate_updateProfile d req =
     ((case body_name req of None \<Rightarrow> True | Some n \<Rightarrow> 3 \<le> length n \<and> length n \<le> 50)
      \<and> (case body_email req of None \<Rightarrow> True | Some e \<Rightarrow> e \<noteq> [] \<and> joi_email d e)
      \<and> (case body_location req of None \<Rightarrow> True | Some l \<Rightarrow> length l \<le> 100)
      \<and> only_keys [''name'', ''email'', ''bio'', ''location''] req)"

text \<open>\<open>req.file.path.replace(/\\/g, "/")\<close>.\<close>

definition slashes :: "string \<Rightarrow> string" where
  "slashes p = map (\<lambda>c. if c = CHR 0x5C then CHR ''/'' else c) p"

text \<open>The object \<open>updateData\<close> that \<open>updateProfile\<close> prepares: an absent or empty
  \<open>name\<close> or \<open>email\<close> keeps the stored one, an absent \<open>bio\<close> or \<open>location\<close> keeps
  the stored one, and \<open>profilePicture\<close> is set only when a file was uploaded.\<close>

definition updateData :: "user \<Rightarrow> request \<Rightarrow> update_values" where
  "updateData u req =
     \<lparr>v_name = Some (if truthy (body_name req) then the (body_name req) else name u),
      v_email = Some (if truthy (body_email req) then the (body_email req) else email u),
      v_password = None,
      v_bio = Some (case body_bio req of None \<Rightarrow> bio u | Some b \<Rightarrow> Some b),
      v_location = Some (case body_location req of None \<Rightarrow> location u | Some l \<Rightarrow> Some l),
      v_profilePicture = map_option slashes (file_path req),
      v_youtubeLinks = None\<rparr>"

definition updateProfile :: "deps \<Rightarrow> state \<Rightarrow> request \<Rightarrow> response \<times> state" where
  "updateProfile d st req =
     (if \<not> validate_updateProfile d req then (reply 400 NoData, st)
      else
        (case req_user req of
           None \<Rightarrow> (errorMiddleware TypeError, st)
         | Some reqUserId \<Rightarrow>
             (case findByPk d st (Some reqUserId) of
                Inl err \<Rightarrow> (errorMiddleware err, st)
              | Inr None \<Rightarrow> (errorMiddleware (HttpError 404), st)
              | Inr (Some u) \<Rightarrow>
                  (if truthy (body_email req) \<and> body_email req \<noteq> Some (email u)
                      \<and> findOne_email st (the (body_email req)) \<noteq> None
                   then (reply 409 NoData, st)
                   else
                     (case user_update d st u (updateData u req) of
                        Inl err \<Rightarrow> (errorMiddleware err, st)
                      | Inr (u', st') \<Rightarrow>
                          (case findByPk d st' (Some reqUserId) of
                             Inl err \<Rightarrow> (errorMiddleware err, st')
                           | Inr None \<Rightarrow> (errorMiddleware TypeError, st')
                           | Inr (Some updatedUser) \<Rightarrow>
                               (reply 200 (UserData (public_user updatedUser)), st')))))))"

text \<open>The pattern of schema \<open>addYoutubeLink\<close>,
  \<open>/^(https?:\/\/)?(www\.)?(youtube\.com|youtu\.be)\/.*$/\<close>: an optional scheme, an
  optional "www.", one of the two hosts, a slash, and a rest without line terminators.\<close>

definition youtube_heads :: "string list" where
  "youtube_heads =
     [s @ w @ h @ ''/''. s \<leftarrow> [[], ''http://'', ''https://''], w \<leftarrow> [[], ''www.''],
        h \<leftarrow> [''youtube.com'', ''youtu.be'']]"

definition youtube_pattern :: "string \<Rightarrow> bool" where
  "youtube_pattern s =
     list_ex (\<lambda>h. take (length h) s = h
                \<and> list_all (\<lambda>c. c \<noteq> CHR 0x0A \<and> c \<noteq> CHR 0x0D) (drop (length h) s))
       youtube_heads"

definition validate_addYoutubeLink :: "request \<Rightarrow> bool" where
  "validate_addYoutubeLink req =
     ((case body_youtubeUrl req of None \<Rightarrow> False | Some y \<Rightarrow> y \<noteq> [] \<and> youtube_pattern y)
      \<and> (case body_title req of None \<Rightarrow> False | Some t \<Rightarrow> t \<noteq> [] \<and> length t \<le> 100)
      \<and> only_keys [''youtubeUrl'', ''title''] req)"

text \<open>\<open>Date.now().toString()\<close>: the decimal numeral of the clock reading.\<close>

fun decimal :: "nat \<Rightarrow> string" where
  "decimal n =
     (if n < 10 then [''0123456789'' ! n] else decimal (n div 10) @ [''0123456789'' ! (n mod 10)])"

declare decimal.simps [simp del]

definition toString :: "int \<Rightarrow> string" where
  "toString n = (if n < 0 then CHR ''-'' # decimal (nat (- n)) else decimal (nat n))"

text \<open>\<open>user.youtubeLinks || []\<close>.\<close>

definition currentLinks :: "user \<Rightarrow> link list" where
  "currentLinks u = (case youtubeLinks u of None \<Rightarrow> [] | Some ls \<Rightarrow> ls)"

text \<open>\<open>addYoutubeLink\<close>: the new entry takes the clock reading as its id and as its
  date (the model reads the clock once for both) and is appended.\<close>

definition addYoutubeLink :: "deps \<Rightarrow> state \<Rightarrow> request \<Rightarrow> int \<Rightarrow> response \<times> state" where
  "addYoutubeLink d st req now =
     (if \<not> validate_addYoutubeLink req then (reply 400 NoData, st)
      else
        (case req_user req of
           None \<Rightarrow> (errorMiddleware TypeError, st)
         | Some reqUserId \<Rightarrow>
             (case findByPk d st (Some reqUserId) of
                Inl err \<Rightarrow> (errorMiddleware err, st)
              | Inr None \<Rightarrow> (errorMiddleware (HttpError 404), st)
              | Inr (Some u) \<Rightarrow>
                  (let newLink = \<lparr>lid = Some (toString now), url = body_youtubeUrl req,
                                   title = body_title req, addedAt = Some now\<rparr>
                   in (case user_update d st u
                              (no_values\<lparr>v_youtubeLinks := Some (currentLinks u @ [newLink])\<rparr>) of
                         Inl err \<Rightarrow> (errorMiddleware err, st)
                       | Inr (u', st') \<Rightarrow>
                           (case findByPk d st' (Some reqUserId) of
                              Inl err \<Rightarrow> (errorMiddleware err, st')
                            | Inr None \<Rightarrow> (errorMiddleware TypeError, st')
                            | Inr (Some updatedUser) \<Rightarrow>
                                (reply 201 (LinkAdded newLink (public_user updatedUser)), st')))))))"

text \<open>\<open>removeYoutubeLink\<close>: every entry whose id is \<open>linkId\<close> is filtered out; equal
  lengths before and after mean that nothing matched, which is answered 404 without a
  write.\<close>

definition removeYoutubeLink :: "deps \<Rightarrow> state \<Rightarrow> request \<Rightarrow> response \<times> state" where
  "removeYoutubeLink d st req =
     (case req_user req of
        None \<Rightarrow> (errorMiddleware TypeError, st)
      | Some reqUserId \<Rightarrow>
          (case findByPk d st (Some reqUserId) of
             Inl err \<Rightarrow> (errorMiddleware err, st)
           | Inr None \<Rightarrow> (errorMiddleware (HttpError 404), st)
           | Inr (Some u) \<Rightarrow>
               (let updatedLinks = filter (\<lambda>l. lid l \<noteq> Some (params_linkId req)) (currentLinks u)
                in (if length (currentLinks u) = length updatedLinks then (reply 404 NoData, st)
                    else
                      (case user_update d st u (no_values\<lparr>v_youtubeLinks := Some updatedLinks\<rparr>) of
                         Inl err \<Rightarrow> (errorMiddleware err, st)
                       | Inr (u', st') \<Rightarrow>
                           (case findByPk d st' (Some reqUserId) of
                              Inl err \<Rightarrow> (errorMiddleware err, st')
                            | Inr None \<Rightarrow> (errorMiddleware TypeError, st')
                            | Inr (Some updatedUser) \<Rightarrow>
                                (reply 200 (UserData (public_user updatedUser)), st')))))))"

subsection \<open>The content feed\<close>

text \<open>Joi schema \<open>getAllContent\<close>: \<open>page\<close> is an integer of at least 1, \<open>limit\<close> an
  integer from 1 to 50, \<open>sortBy\<close> one of the three names; every key is optional, and no other key is
  allowed.\<close>

definition validate_getAllContent :: "request \<Rightarrow> bool" where
  "validate_getAllContent req =
     ((case query_page req of
         None \<Rightarrow> True
       | Some q \<Rightarrow> (case joi_integer q of None \<Rightarrow> False | Some n \<Rightarrow> 1 \<le> n))
      \<and> (case query_limit req of
           None \<Rightarrow> True
         | Some q \<Rightarrow> (case joi_integer q of None \<Rightarrow> False | Some n \<Rightarrow> 1 \<le> n \<and> n \<le> 50))
      \<and> (case query_sortBy req of
           None \<Rightarrow> True
         | Some s \<Rightarrow> s \<in> set [''newest'', ''oldest'', ''popular''])
      \<and> \<not> query_unknown_keys req)"

text \<open>\<open>User.findAll\<close> with the \<open>where\<close> clause of the feed: the rows whose
  \<open>youtubeLinks\<close> is neither null nor the empty array, newest row first.\<close>

definition findAll_with_links :: "state \<Rightarrow> user list" where
  "findAll_with_links st =
     newest_first (filter (\<lambda>u. youtubeLinks u \<noteq> None \<and> youtubeLinks u \<noteq> Some []) (users st))"

text \<open>\<open>allContent\<close> is allocated with \<open>new Array(estimatedContentCount)\<close>, an array
  of holes; \<open>allContent[contentIndex++] = item\<close> fills a hole (or lengthens the array),
  and \<open>filter(Boolean)\<close> drops the holes that are left.\<close>

definition put :: "'a option list \<Rightarrow> nat \<Rightarrow> 'a \<Rightarrow> 'a option list" where
  "put arr i v =
     (if i < length arr then arr[i := Some v]
      else arr @ replicate (i - length arr) None @ [Some v])"

definition filter_Boolean :: "'a option list \<Rightarrow> 'a list" where
  "filter_Boolean arr = List.map_filter (\<lambda>x. x) arr"

definition content_item :: "user \<Rightarrow> link \<Rightarrow> int \<Rightarrow> content" where
  "content_item u l now =
     \<lparr>c_id = the (lid l),
      c_title = (if truthy (title l) then the (title l) else ''Untitled Video''),
      c_url = the (url l),
      c_addedAt = (case addedAt l of None \<Rightarrow> now | Some t \<Rightarrow> t),
      c_user = [(''id'', Str (uid u)), (''name'', Str (name u)),
                (''profilePictureUrl'', Str (profilePictureUrl (uid u)))]\<rparr>"

definition fill_link ::
  "user \<Rightarrow> int \<Rightarrow> link \<Rightarrow> content option list \<times> nat \<Rightarrow> content option list \<times> nat" where
  "fill_link u now l acc =
     (case acc of
        (allContent, contentIndex) \<Rightarrow>
          if \<not> truthy (lid l) \<or> \<not> truthy (url l) then (allContent, contentIndex)
          else (put allContent contentIndex (content_item u l now), contentIndex + 1))"

definition fill_user ::
  "int \<Rightarrow> user \<Rightarrow> content option list \<times> nat \<Rightarrow> content option list \<times> nat" where
  "fill_user now u acc =
     (case youtubeLinks u of
        None \<Rightarrow> acc
      | Some ls \<Rightarrow> if 0 < length ls then fold (fill_link u now) ls acc else acc)"

definition estimatedContentCount :: "user list \<Rightarrow> nat" where
  "estimatedContentCount us =
     fold (\<lambda>u count. count + (case youtubeLinks u of None \<Rightarrow> 0 | Some ls \<Rightarrow> length ls)) us 0"

definition collect_content :: "user list \<Rightarrow> int \<Rightarrow> content list" where
  "collect_content us now =
     filter_Boolean (fst (fold (fill_user now) us (replicate (estimatedContentCount us) None, 0)))"

text \<open>\<open>Array.prototype.sort(cmp)\<close> is a stable sort: for a comparator that orders by
  a key, it returns the elements in key order, equal keys in their former order. That
  list is what insertion from the right computes, each element going in front of the
  first one it does not come after.\<close>

fun js_insert :: "('a \<Rightarrow> 'a \<Rightarrow> int) \<Rightarrow> 'a \<Rightarrow> 'a list \<Rightarrow> 'a list" where
  "js_insert cmp x [] = [x]"
| "js_insert cmp x (y # ys) = (if cmp x y \<le> 0 then x # y # ys else y # js_insert cmp x ys)"

definition js_sort :: "('a \<Rightarrow> 'a \<Rightarrow> int) \<Rightarrow> 'a list \<Rightarrow> 'a list" where
  "js_sort cmp xs = foldr (js_insert cmp) xs []"

definition getSortFn :: "string \<Rightarrow> content \<Rightarrow> content \<Rightarrow> int" where
  "getSortFn sortType =
     (if sortType = ''newest'' then (\<lambda>a b. c_addedAt b - c_addedAt a)
      else if sortType = ''oldest'' then (\<lambda>a b. c_addedAt a - c_addedAt b)
      else if sortType = ''popular'' then (\<lambda>a b. c_addedAt b - c_addedAt a)
      else (\<lambda>a b. c_addedAt b - c_addedAt a))"

text \<open>\<open>Array.prototype.slice(start, stop)\<close>: a negative index counts from the end,
  and both are cut to the range of the array.\<close>

definition slice :: "'a list \<Rightarrow> int \<Rightarrow> int \<Rightarrow> 'a list" where
  "slice xs start stop =
     (let n = int (length xs);
          k = (if start < 0 then max (n + start) 0 else min start n);
          e = (if stop < 0 then max (n + stop) 0 else min stop n)
      in take (nat (e - k)) (drop (nat k) xs))"

definition getAllContent :: "state \<Rightarrow> request \<Rightarrow> int \<Rightarrow> response \<times> state" where
  "getAllContent st req now =
     (if \<not> validate_getAllContent req then (reply 400 NoData, st)
      else
        (let page = max 1 (parseInt_or (query_page req) 1);
             lim = min 50 (max 1 (parseInt_or (query_limit req) 10));
             sortBy = (case query_sortBy req of
                         None \<Rightarrow> ''newest''
                       | Some s \<Rightarrow>
                           if s \<in> set [''newest'', ''oldest'', ''popular''] then s else ''newest'');
             allContent = js_sort (getSortFn sortBy) (collect_content (findAll_with_links st) now);
             totalItems = int (length allContent);
             startIndex = (page - 1) * lim;
             endIndex = min (startIndex + lim) totalItems
         in (reply 200
               (ContentPage (slice allContent startIndex endIndex)
                  \<lparr>total = totalItems, limit = lim, totalPages = ceil_div totalItems lim,
                   currentPage = page, hasNextPage = (endIndex < totalItems),
                   hasPreviousPage = (1 < page),
                   nextPage = (if endIndex < totalItems then Some (page + 1) else None),
                   previousPage = (if 1 < page then Some (page - 1) else None)\<rparr>),
             st)))"

section \<open>Routes (src/routes/auth.route.js, src/routes/user.route.js)\<close>

text \<open>One request to the application. \<open>upload_error\<close> of a request says that the
  upload middleware raised an error, which \<open>handleMulterError\<close> answers with 400.\<close>

datatype operation =
  SignUp request string
  | SignIn request
  | Refresh request
  | SignOut request
  | GetUsers request
  | GetAllContent request
  | GetUserById request
  | GetProfile request
  | UpdateProfile request
  | AddYoutubeLink request
  | RemoveYoutubeLink request

definition step :: "deps \<Rightarrow> state \<Rightarrow> operation \<Rightarrow> int \<Rightarrow> response \<times> state" where
  "step d st op now =
     (case op of
        SignUp req uuid \<Rightarrow> signUp d st req uuid now
      | SignIn req \<Rightarrow> signIn d st req now
      | Refresh req \<Rightarrow> refreshToken_handler d st req now
      | SignOut req \<Rightarrow> route_signout d st req now
      | GetUsers req \<Rightarrow> getUsers st req
      | GetAllContent req \<Rightarrow> getAllContent st req now
      | GetUserById req \<Rightarrow> getUserById d st req
      | GetProfile req \<Rightarrow> protected d (getProfile d) st req now
      | UpdateProfile req \<Rightarrow>
          protected d
            (\<lambda>s r. if upload_error r then (reply 400 NoData, s) else updateProfile d s r) st req now
      | AddYoutubeLink req \<Rightarrow> protected d (\<lambda>s r. addYoutubeLink d s r now) st req now
      | RemoveYoutubeLink req \<Rightarrow> protected d (removeYoutubeLink d) st req now)"

text \<open>The primary key is unique.\<close>

definition wf_store :: "state \<Rightarrow> bool" where
  "wf_store st = distinct (map uid (users st))"

definition tokenVersion_of :: "state \<Rightarrow> string \<Rightarrow> int option" where
  "tokenVersion_of st i = map_option tokenVersion (row st (Some i))"

section \<open>What the claims speak about\<close>

text \<open>The user objects that a response body carries.\<close>

definition user_objects :: "payload \<Rightarrow> json_obj list" where
  "user_objects p =
     (case p of
        NoData \<Rightarrow> []
      | AuthData a r obj \<Rightarrow> [obj]
      | AccessData a \<Rightarrow> []
      | UserList objs pg \<Rightarrow> objs
      | UserData obj \<Rightarrow> [obj]
      | LinkAdded l obj \<Rightarrow> [obj]
      | ContentPage items pg \<Rightarrow> map c_user items)"

definition has_key :: "string \<Rightarrow> json_obj \<Rightarrow> bool" where
  "has_key k obj = (k \<in> set (map fst obj))"

text \<open>A response none of whose user objects has a \<open>password\<close> key.\<close>

definition password_free :: "response \<Rightarrow> bool" where
  "password_free resp = (\<forall>obj \<in> set (user_objects (data resp)). \<not> has_key ''password'' obj)"

text \<open>The columns that a profile update has no business with.\<close>

definition frozen_columns ::
  "user \<Rightarrow> string \<times> string \<times> token option \<times> int \<times> link list option \<times> int" where
  "frozen_columns u =
     (uid u, password u, refreshToken u, tokenVersion u, youtubeLinks u, createdAt u)"

text \<open>The verification failure that the specification calls "signature invalid or
  expired", for the key of the refresh endpoint.\<close>

definition invalid_or_expired :: "token \<Rightarrow> int \<Rightarrow> bool" where
  "invalid_or_expired t now =
     (case t of Opaque s \<Rightarrow> True | Jwt k i v ia ex \<Rightarrow> k \<noteq> signingSecret \<or> ex \<le> now div 1000)"

text \<open>A token names a key that the table can be asked for: the \<open>userId\<close> is absent or
  a UUID.\<close>

definition uuid_or_absent :: "deps \<Rightarrow> string option \<Rightarrow> bool" where
  "uuid_or_absent d pk = (case pk of None \<Rightarrow> True | Some i \<Rightarrow> pg_uuid d i)"

text \<open>The links of the user with id \<open>i\<close>, as \<open>addYoutubeLink\<close> and
  \<open>removeYoutubeLink\<close> read them.\<close>

definition links_of :: "state \<Rightarrow> string \<Rightarrow> link list" where
  "links_of st i = (case row st (Some i) of None \<Rightarrow> [] | Some u \<Rightarrow> currentLinks u)"

subsection \<open>The content feed as the specification words it\<close>

text \<open>Flatten every user's links into one sequence, each entry annotated with its
  owner, and discard the entries that lack an id or a url.\<close>

definition flattened :: "user list \<Rightarrow> int \<Rightarrow> content list" where
  "flattened us now =
     concat (map (\<lambda>u. map (\<lambda>l. content_item u l now)
                          (filter (\<lambda>l. truthy (lid l) \<and> truthy (url l)) (currentLinks u))) us)"

text \<open>Sort by \<open>addedAt\<close>, descending for \<open>newest\<close> and \<open>popular\<close>, ascending for
  \<open>oldest\<close>; the users are fetched newest first and the sort is stable.\<close>

definition spec_feed :: "state \<Rightarrow> string \<Rightarrow> int \<Rightarrow> content list" where
  "spec_feed st sortBy now =
     (if sortBy = ''oldest'' then sort_key c_addedAt (flattened (newest_first (users st)) now)
      else sort_key (\<lambda>c. - c_addedAt c) (flattened (newest_first (users st)) now))"

text \<open>The page: the entries from index \<open>(page - 1) * limit\<close> up to, and excluding,
  \<open>min ((page - 1) * limit + limit) total\<close>.\<close>

definition spec_listContent :: "state \<Rightarrow> int \<Rightarrow> int \<Rightarrow> string \<Rightarrow> int \<Rightarrow> content list" where
  "spec_listContent st page lim sortBy now =
     (let feed = spec_feed st sortBy now;
          first = nat ((page - 1) * lim);
          last = nat (min ((page - 1) * lim + lim) (int (length feed)))
      in map (\<lambda>k. feed ! k) [first..<last])"

text \<open>The page, the limit and the order that \<open>getAllContent\<close> works with, read from
  the query string with \<open>parseInt\<close>, and the page and the limit that the validation
  in front of it has read and accepted.\<close>

definition used_page :: "request \<Rightarrow> int" where
  "used_page req = max 1 (parseInt_or (query_page req) 1)"

definition used_limit :: "request \<Rightarrow> int" where
  "used_limit req = min 50 (max 1 (parseInt_or (query_limit req) 10))"

definition used_sortBy :: "request \<Rightarrow> string" where
  "used_sortBy req =
     (case query_sortBy req of
        None \<Rightarrow> ''newest''
      | Some s \<Rightarrow> if s \<in> set [''newest'', ''oldest'', ''popular''] then s else ''newest'')"

definition valid_page :: "request \<Rightarrow> int" where
  "valid_page req =
     (case query_page req of
        None \<Rightarrow> 1
      | Some q \<Rightarrow> (case joi_integer q of None \<Rightarrow> 1 | Some n \<Rightarrow> n))"

definition valid_limit :: "request \<Rightarrow> int" where
  "valid_limit req =
     (case query_limit req of
        None \<Rightarrow> 10
      | Some q \<Rightarrow> (case joi_integer q of None \<Rightarrow> 10 | Some n \<Rightarrow> n))"

section \<open>Sample data\<close>

text \<open>The canonical text form of a UUID: groups of 8, 4, 4, 4 and 12 hexadecimal
  digits, separated by hyphens. It is the reading of \<open>pg_uuid\<close> in the sample
  deployments; the store accepts a few other spellings, which the samples do not use.\<close>

definition hex_digit :: "char \<Rightarrow> bool" where
  "hex_digit c = (c \<in> set ''0123456789abcdefABCDEF'')"

fun hex_groups :: "nat list \<Rightarrow> string \<Rightarrow> bool" where
  "hex_groups [] s = (s = [])"
| "hex_groups [n] s = (length s = n \<and> list_all hex_digit s)"
| "hex_groups (n # m # ns) s =
     (length (take n s) = n \<and> list_all hex_digit (take n s) \<and> take 1 (drop n s) = ''-''
      \<and> hex_groups (m # ns) (drop (Suc n) s))"

definition uuid_format :: "string \<Rightarrow> bool" where
  "uuid_format s = hex_groups [8, 4, 4, 4, 12] s"

text \<open>A deployment whose \<open>JWT_SECRET\<close> is the key written in the controller, one
  whose \<open>JWT_SECRET\<close> is another key, and one without \<open>JWT_SECRET\<close>.\<close>

definition env0 :: deps where
  "env0 = \<lparr>JWT_SECRET = Some signingSecret,
            joi_email = (\<lambda>s. CHR ''@'' \<in> set s),
            isEmail = (\<lambda>s. CHR ''@'' \<in> set s),
            bcrypt_hash = (\<lambda>p. ''$2a$10$'' @ p),
            bcrypt_compare = (\<lambda>p h. h = ''$2a$10$'' @ p),
            pg_uuid = uuid_format\<rparr>"

definition env_k :: deps where
  "env_k = env0\<lparr>JWT_SECRET := Some ''k''\<rparr>"

definition env_unset :: deps where
  "env_unset = env0\<lparr>JWT_SECRET := None\<rparr>"

definition video :: "string \<Rightarrow> int \<Rightarrow> link" where
  "video i t = \<lparr>lid = Some i, url = Some ''https://youtu.be/x'', title = Some ''clip'',
                addedAt = Some t\<rparr>"

definition ann_id :: string where
  "ann_id = ''11111111-1111-4111-8111-111111111111''"

definition bob_id :: string where
  "bob_id = ''22222222-2222-4222-8222-222222222222''"

definition ann :: user where
  "ann = \<lparr>uid = ann_id, name = ''Ann Lee'', email = ''ann@x.com'',
           password = ''$2a$10$password1'', refreshToken = None, tokenVersion = 0,
           bio = None, location = None, profilePicture = None,
           youtubeLinks = Some [video ''10'' 10, video ''30'' 30], createdAt = 1\<rparr>"

definition bob :: user where
  "bob = \<lparr>uid = bob_id, name = ''Bob Ray'', email = ''bob@x.com'',
           password = ''$2a$10$password2'', refreshToken = None, tokenVersion = 0,
           bio = None, location = None, profilePicture = None,
           youtubeLinks = Some [video ''20'' 20], createdAt = 2\<rparr>"

definition store0 :: state where
  "store0 = \<lparr>users = [ann, bob], tokenBlacklist = {}, timers = []\<rparr>"

text \<open>The access token that a sign-in of Ann at clock reading 5000 issues, and a
  request that carries it.\<close>

definition ann_token :: token where
  "ann_token = Jwt signingSecret (Some ann_id) None 5 86405"

definition ann_request :: request where
  "ann_request = empty_request\<lparr>authorization := Some (Bearer ann_token)\<rparr>"

text \<open>The refresh token of that sign-in, and the store in which Ann's row holds it.\<close>

definition ann_refresh :: token where
  "ann_refresh = Jwt signingSecret (Some ann_id) (Some 0) 5 604805"

definition store1 :: state where
  "store1 = \<lparr>users = [ann\<lparr>refreshToken := Some ann_refresh\<rparr>, bob], tokenBlacklist = {},
             timers = []\<rparr>"

text \<open>The request of that sign-in.\<close>

definition signin_request :: request where
  "signin_request = empty_request\<lparr>body_email := Some ''ann@x.com'',
                      body_password := Some ''password1''\<rparr>"

text \<open>An access token for Ann signed with the key \<open>k\<close>, which is not the key of the
  controller, and a sign-out request that carries it.\<close>

definition k_token :: token where
  "k_token = Jwt ''k'' (Some ann_id) None 5 86405"

definition k_request :: request where
  "k_request = empty_request\<lparr>authorization := Some (Bearer k_token)\<rparr>"

text \<open>A store in which Ann's \<open>tokenVersion\<close> is the largest value of the column, with
  the refresh token that a sign-in in that store issues.\<close>

definition max_refresh :: token where
  "max_refresh = Jwt signingSecret (Some ann_id) (Some 2147483647) 5 604805"

definition store_max :: state where
  "store_max = \<lparr>users = [ann\<lparr>refreshToken := Some max_refresh, tokenVersion := 2147483647\<rparr>, bob],
                tokenBlacklist = {}, timers = []\<rparr>"

text \<open>A refresh token that carries the controller's signature and a \<open>userId\<close> that is
  no UUID.\<close>

definition odd_refresh :: token where
  "odd_refresh = Jwt signingSecret (Some ''x'') (Some 0) 5 604805"

text \<open>A query value that validation reads as 10 and \<open>parseInt\<close> reads as 1: the
  string \<open>1e1\<close>.\<close>

definition q_1e1 :: query_value where
  "q_1e1 = \<lparr>joi_integer = Some 10, parseInt = Some 1\<rparr>"

definition request_1e1 :: request where
  "request_1e1 = empty_request\<lparr>query_limit := Some q_1e1\<rparr>"

text \<open>A request of Ann to add a link, and her request to remove the link with id 5.\<close>

definition add_request :: request where
  "add_request = empty_request\<lparr>req_user := Some ann_id,
                   body_youtubeUrl := Some ''https://youtu.be/y'', body_title := Some ''talk''\<rparr>"

definition remove_request :: request where
  "remove_request = empty_request\<lparr>req_user := Some ann_id, params_linkId := ''5''\<rparr>"

text \<open>Ann adds a link at clock reading 5, adds a second link at the same clock
  reading, and removes the link with id 5.\<close>

definition store_a :: state where
  "store_a = snd (addYoutubeLink env0 store0 add_request 5)"

definition store_b :: state where
  "store_b = snd (addYoutubeLink env0 store_a add_request 5)"

definition store_c :: state where
  "store_c = snd (removeYoutubeLink env0 store_b remove_request)"

text \<open>A request of Ann to change her name and her bio.\<close>

definition profile_request :: request where
  "profile_request = empty_request\<lparr>req_user := Some ann_id, body_name := Some ''Ann B. Lee'',
                       body_bio := Some ''hello''\<rparr>"

text \<open>The sign-up of the specification's example, into an empty store.\<close>

definition signup_request :: request where
  "signup_request = empty_request\<lparr>body_name := Some ''Ann Lee'', body_email := Some ''ann@x.com'',
                      body_password := Some ''password1''\<rparr>"

definition empty_store :: state where
  "empty_store = \<lparr>users = [], tokenBlacklist = {}, timers = []\<rparr>"

section \<open>The store and the operations on it\<close>

lemma signingSecret_nonempty: "signingSecret \<noteq> []"
  by (simp add: signingSecret_def)

lemma row_Some_uid: "row st (Some i) = Some u \<Longrightarrow> uid u = i"
  by (auto simp: row_def dest: find_Some_iff[THEN iffD1])

lemma findByPk_eq:
  "findByPk d st pk = (if uuid_or_absent d pk then Inr (row st pk) else Inl SequelizeDatabaseError)"
  by (simp add: findByPk_def uuid_or_absent_def row_def split: option.splits)

lemma findByPk_Inr_Some:
  "findByPk d st pk = Inr (Some u) \<longleftrightarrow> uuid_or_absent d pk \<and> row st pk = Some u"
  by (simp add: findByPk_eq)

lemma findByPk_Inr_None:
  "findByPk d st pk = Inr None \<longleftrightarrow> uuid_or_absent d pk \<and> row st pk = None"
  by (simp add: findByPk_eq)

lemma findByPk_Inl:
  "findByPk d st pk = Inl e \<longleftrightarrow> \<not> uuid_or_absent d pk \<and> e = SequelizeDatabaseError"
  by (auto simp: findByPk_eq)

lemma findByPk_users_cong: "users st' = users st \<Longrightarrow> findByPk d st' pk = findByPk d st pk"
  by (simp add: findByPk_def row_def split: option.splits)

lemma find_map_replace:
  assumes "uid u' = i"
  shows "find (\<lambda>r. uid r = j) (map (\<lambda>r. if uid r = i then u' else r) xs) =
         (if j = i then (if find (\<lambda>r. uid r = i) xs = None then None else Some u')
          else find (\<lambda>r. uid r = j) xs)"
  using assms by (induction xs) auto

lemma beforeUpdate_uid: "uid (beforeUpdate d old u) = uid u"
  by (simp add: beforeUpdate_def)

lemma user_save_row:
  assumes "user_save d st u = Inr (u', st')"
  shows "row st' (Some j) =
         (if j = uid u \<and> row st (Some (uid u)) \<noteq> None then Some u' else row st (Some j))"
  using assms
  by (auto simp: user_save_def Let_def row_def find_map_replace beforeUpdate_uid
           split: option.splits if_splits)

lemma user_save_frame:
  assumes "user_save d st u = Inr (u', st')"
  shows "tokenBlacklist st' = tokenBlacklist st \<and> timers st' = timers st
         \<and> map uid (users st') = map uid (users st)"
  using assms
  by (auto simp: user_save_def Let_def beforeUpdate_uid split: option.splits if_splits)

lemma user_save_result:
  assumes "user_save d st u = Inr (u', st')" "row st (Some (uid u)) = Some old"
  shows "u' = beforeUpdate d old u"
  using assms by (auto simp: user_save_def Let_def split: option.splits if_splits)

lemma user_save_fits:
  assumes "user_save d st u = Inr (u', st')" "row st (Some (uid u)) = Some old"
  shows "update_fits old u'"
  using assms by (auto simp: user_save_def Let_def split: option.splits if_splits)

lemma set_values_uid: "uid (set_values u v) = uid u"
  by (simp add: set_values_def)

lemma user_save_same_password:
  assumes "user_save d st u = Inr (u', st')" "row st (Some (uid u)) = Some old"
    "password u = password old"
  shows "u' = u"
  using user_save_result[OF assms(1,2)] assms(3) by (simp add: beforeUpdate_def)

lemma user_update_no_password:
  assumes "user_update d st u v = Inr (u', st')" "row st (Some i) = Some u"
    "v_password v = None"
  shows "u' = set_values u v"
    and "row st' (Some j) = (if j = i then Some (set_values u v) else row st (Some j))"
proof -
  have i: "uid u = i" using assms(2) by (rule row_Some_uid)
  have sv: "user_save d st (set_values u v) = Inr (u', st')"
    using assms(1) by (simp add: user_update_def)
  have old: "row st (Some (uid (set_values u v))) = Some u"
    using assms(2) i by (simp add: set_values_uid)
  have pw: "password (set_values u v) = password u"
    using assms(3) by (simp add: set_values_def)
  show u': "u' = set_values u v"
    using user_save_same_password[OF sv old pw] .
  show "row st' (Some j) = (if j = i then Some (set_values u v) else row st (Some j))"
    using user_save_row[OF sv, of j] old i u' by (auto simp: set_values_uid)
qed

lemma set_values_frozen:
  "v_password v = None \<Longrightarrow> v_youtubeLinks v = None \<Longrightarrow>
   password (set_values u v) = password u \<and> refreshToken (set_values u v) = refreshToken u
   \<and> tokenVersion (set_values u v) = tokenVersion u \<and> youtubeLinks (set_values u v) = youtubeLinks u
   \<and> uid (set_values u v) = uid u \<and> createdAt (set_values u v) = createdAt u"
  by (simp add: set_values_def)

lemma user_update_frame:
  assumes "user_update d st u v = Inr (u', st')"
  shows "tokenBlacklist st' = tokenBlacklist st \<and> timers st' = timers st"
  using assms user_save_frame by (auto simp: user_update_def)

lemma updateData_frozen: "v_password (updateData u req) = None \<and> v_youtubeLinks (updateData u req) = None"
  by (simp add: updateData_def)

lemma updateProfile_cases:
  assumes "updateProfile d st req = (resp, st')"
  shows "st' = st \<or> (\<exists>i u u'. req_user req = Some i \<and> row st (Some i) = Some u
            \<and> user_update d st u (updateData u req) = Inr (u', st'))"
  using assms
  by (auto simp: updateProfile_def findByPk_Inr_Some
           split: if_splits option.splits sum.splits prod.splits)

lemma addYoutubeLink_cases:
  assumes "addYoutubeLink d st req now = (resp, st')"
  shows "st' = st \<or> (\<exists>i u u' l. req_user req = Some i \<and> row st (Some i) = Some u
            \<and> user_update d st u (no_values\<lparr>v_youtubeLinks := Some (currentLinks u @ [l])\<rparr>) = Inr (u', st'))"
  using assms
  by (auto simp: addYoutubeLink_def Let_def findByPk_Inr_Some
           split: if_splits option.splits sum.splits prod.splits)

lemma removeYoutubeLink_cases:
  assumes "removeYoutubeLink d st req = (resp, st')"
  shows "st' = st \<or> (\<exists>i u u' ls. req_user req = Some i \<and> row st (Some i) = Some u
            \<and> user_update d st u (no_values\<lparr>v_youtubeLinks := Some ls\<rparr>) = Inr (u', st'))"
  using assms
  by (auto simp: removeYoutubeLink_def Let_def findByPk_Inr_Some
           split: if_splits option.splits sum.splits prod.splits)

lemma set_values_tokenVersion: "tokenVersion (set_values u v) = tokenVersion u"
  by (simp add: set_values_def)

lemma tv_user_update:
  assumes "user_update d st u v = Inr (u', st')" "row st (Some j) = Some u" "v_password v = None"
  shows "tokenVersion_of st' i = tokenVersion_of st i"
  using user_update_no_password(2)[OF assms, of i] assms(2)
  by (auto simp: tokenVersion_of_def set_values_tokenVersion)

lemma tv_updateProfile:
  "updateProfile d st req = (resp, st') \<Longrightarrow> tokenVersion_of st' i = tokenVersion_of st i"
  using updateProfile_cases[of d st req resp st'] tv_user_update updateData_frozen
  by blast

lemma tv_addYoutubeLink:
  "addYoutubeLink d st req now = (resp, st') \<Longrightarrow> tokenVersion_of st' i = tokenVersion_of st i"
  using addYoutubeLink_cases[of d st req now resp st'] tv_user_update[where v = "no_values\<lparr>v_youtubeLinks := Some _\<rparr>"]
  by (auto simp: no_values_def)

lemma tv_removeYoutubeLink:
  "removeYoutubeLink d st req = (resp, st') \<Longrightarrow> tokenVersion_of st' i = tokenVersion_of st i"
  using removeYoutubeLink_cases[of d st req resp st'] tv_user_update[where v = "no_values\<lparr>v_youtubeLinks := Some _\<rparr>"]
  by (auto simp: no_values_def)

lemma wf_find_member:
  "distinct (map uid xs) \<Longrightarrow> u \<in> set xs \<Longrightarrow> find (\<lambda>r. uid r = uid u) xs = Some u"
  by (induction xs) auto

lemma findOne_email_member: "findOne_email st e = Some u \<Longrightarrow> u \<in> set (users st)"
  by (auto simp: findOne_email_def find_Some_iff)

lemma wf_row:
  "wf_store st \<Longrightarrow> u \<in> set (users st) \<Longrightarrow> row st (Some (uid u)) = Some u"
  by (simp add: wf_store_def row_def wf_find_member)

lemma generateTokens_loaded:
  assumes "generateTokens d st u now = Inr ((a, r), u', st')" "row st (Some (uid u)) = Some u"
  shows "u' = u\<lparr>refreshToken := Some r\<rparr>"
    and "row st' (Some j) = (if j = uid u then Some u' else row st (Some j))"
    and "a = jwt_sign (Some (uid u)) None signingSecret one_day now"
    and "r = jwt_sign (Some (uid u)) (Some (tokenVersion u)) signingSecret seven_days now"
    and "tokenBlacklist st' = tokenBlacklist st"
proof -
  let ?r = "jwt_sign (Some (uid u)) (Some (tokenVersion u)) signingSecret seven_days now"
  from assms(1) have sv: "user_save d st (u\<lparr>refreshToken := Some ?r\<rparr>) = Inr (u', st')"
    and a: "a = jwt_sign (Some (uid u)) None signingSecret one_day now" and r: "r = ?r"
    by (auto simp: generateTokens_def Let_def split: sum.splits)
  have old: "row st (Some (uid (u\<lparr>refreshToken := Some ?r\<rparr>))) = Some u"
    using assms(2) by simp
  show u': "u' = u\<lparr>refreshToken := Some r\<rparr>"
    using user_save_same_password[OF sv old] r by simp
  show "row st' (Some j) = (if j = uid u then Some u' else row st (Some j))"
    using user_save_row[OF sv, of j] old by auto
  show "a = jwt_sign (Some (uid u)) None signingSecret one_day now" by (rule a)
  show "r = ?r" by (rule r)
  show "tokenBlacklist st' = tokenBlacklist st" using user_save_frame[OF sv] by simp
qed

lemma signIn_cases:
  assumes "signIn d st req now = (resp, st')"
  shows "st' = st \<or> (\<exists>u a r u'. u \<in> set (users st) \<and> generateTokens d st u now = Inr ((a, r), u', st'))"
  using assms
  by (auto simp: signIn_def dest: findOne_email_member
           split: if_splits option.splits sum.splits prod.splits)

lemma tv_signIn:
  assumes "signIn d st req now = (resp, st')" "wf_store st"
  shows "tokenVersion_of st' i = tokenVersion_of st i"
proof -
  from signIn_cases[OF assms(1)] show ?thesis
  proof
    assume "st' = st" then show ?thesis by simp
  next
    assume "\<exists>u a r u'. u \<in> set (users st) \<and> generateTokens d st u now = Inr ((a, r), u', st')"
    then obtain u a r u' where m: "u \<in> set (users st)"
      and g: "generateTokens d st u now = Inr ((a, r), u', st')" by blast
    have l: "row st (Some (uid u)) = Some u" using wf_row[OF assms(2) m] .
    show ?thesis
      using generateTokens_loaded(1,2)[OF g l] l by (auto simp: tokenVersion_of_def)
  qed
qed

lemma tv_refresh: "refreshToken_handler d st req now = (resp, st') \<Longrightarrow> st' = st"
  by (auto simp: refreshToken_handler_def split: if_splits option.splits sum.splits)

lemma protected_cases:
  assumes "protected d h st req now = (resp, st')"
  shows "(st' = st \<and> authorize d st req now = Inl resp) \<or> (\<exists>i. authorize d st req now = Inr i \<and> h st (req\<lparr>req_user := Some i\<rparr>) = (resp, st'))"
  using assms by (auto simp: protected_def split: sum.splits)

lemma row_users_cong: "users st' = users st \<Longrightarrow> row st' pk = row st pk"
  by (simp add: row_def split: option.splits)

lemma jwt_verify_Inr:
  "jwt_verify t secret now = Inr t' \<longleftrightarrow>
     t' = t \<and> (\<exists>k i v ia ex. t = Jwt k i v ia ex \<and> secret = Some k \<and> k \<noteq> [] \<and> now div 1000 < ex)"
  by (auto simp: jwt_verify_def split: token.splits option.splits)

lemma authorize_Inr:
  "authorize d st req now = Inr i \<longleftrightarrow>
     (\<exists>t. authorization req = Some (Bearer t) \<and> t \<notin> tokenBlacklist st
        \<and> jwt_verify t (JWT_SECRET d) now = Inr t \<and> userId t = Some i \<and> i \<noteq> []
        \<and> pg_uuid d i \<and> row st (Some i) \<noteq> None)"
proof
  assume "authorize d st req now = Inr i"
  then show "\<exists>t. authorization req = Some (Bearer t) \<and> t \<notin> tokenBlacklist st
        \<and> jwt_verify t (JWT_SECRET d) now = Inr t \<and> userId t = Some i \<and> i \<noteq> []
        \<and> pg_uuid d i \<and> row st (Some i) \<noteq> None"
    by (auto simp: authorize_def extractToken_def truthy_token_def truthy_def isTokenBlacklisted_def
              jwt_verify_Inr findByPk_Inr_Some uuid_or_absent_def
              split: option.splits authorization.splits sum.splits if_splits
              dest: row_Some_uid)
next
  assume "\<exists>t. authorization req = Some (Bearer t) \<and> t \<notin> tokenBlacklist st
        \<and> jwt_verify t (JWT_SECRET d) now = Inr t \<and> userId t = Some i \<and> i \<noteq> []
        \<and> pg_uuid d i \<and> row st (Some i) \<noteq> None"
  then obtain t u where h: "authorization req = Some (Bearer t)" "t \<notin> tokenBlacklist st"
    "jwt_verify t (JWT_SECRET d) now = Inr t" "userId t = Some i" "i \<noteq> []"
    "row st (Some i) = Some u" "pg_uuid d i" by auto
  have "t \<noteq> Opaque []" using h(3) by (auto simp: jwt_verify_def)
  moreover have "uid u = i" using h(6) by (rule row_Some_uid)
  ultimately show "authorize d st req now = Inr i"
    using h by (simp add: authorize_def extractToken_def truthy_token_def truthy_def
                  isTokenBlacklisted_def findByPk_def)
qed

lemma authorize_Inl:
  "authorize d st req now = Inl r \<Longrightarrow> r = reply 401 NoData \<or> r = reply 500 NoData"
  by (auto simp: authorize_def split: option.splits authorization.splits sum.splits if_splits)

lemma signOut_answers:
  "signOut d st req now = (resp, st') \<Longrightarrow> resp = reply 200 NoData \<or> resp = reply 500 NoData"
  by (auto simp: signOut_def Let_def split: option.splits sum.splits if_splits prod.splits)

lemma signOut_effect:
  assumes "signOut d st req now = (resp, st')"
  shows "users st' = users st \<or>
         (\<exists>t i u. authorization req = Some (Bearer t) \<and> jwt_verify t (Some signingSecret) now = Inr t
             \<and> userId t = Some i \<and> row st (Some i) = Some u \<and> int4 (tokenVersion u + 1)
             \<and> (\<forall>j. row st' (Some j) =
                    (if j = i then Some (u\<lparr>tokenVersion := tokenVersion u + 1, refreshToken := None\<rparr>)
                     else row st (Some j))))"
proof (cases "users st' = users st")
  case True then show ?thesis by simp
next
  case False
  from assms False obtain t where t: "authorization req = Some (Bearer t)"
    by (auto simp: signOut_def extractToken_def split: option.splits authorization.splits)
  define st2 where "st2 = st\<lparr>tokenBlacklist := insert t (tokenBlacklist st),
      timers := timers st @ [(expiresAt t * 1000, t)]\<rparr>"
  have us2: "users st2 = users st" by (simp add: st2_def)
  from assms False t have v: "jwt_verify t (Some signingSecret) now = Inr t"
    by (auto simp: signOut_def extractToken_def Let_def jwt_verify_Inr
             split: sum.splits if_splits option.splits prod.splits)
  from assms False t v obtain u u' where f2: "row st2 (userId t) = Some u"
    and sv: "user_save d st2 (u\<lparr>tokenVersion := tokenVersion u + 1, refreshToken := None\<rparr>) = Inr (u', st')"
    by (auto simp: signOut_def extractToken_def Let_def st2_def findByPk_Inr_Some
             split: sum.splits if_splits option.splits prod.splits)
  from f2 obtain i where i: "userId t = Some i" by (cases "userId t") (auto simp: row_def)
  have f: "row st (Some i) = Some u" using f2 i row_users_cong[OF us2] by simp
  have ui: "uid u = i" using f by (rule row_Some_uid)
  let ?u = "u\<lparr>tokenVersion := tokenVersion u + 1, refreshToken := None\<rparr>"
  have old: "row st2 (Some (uid ?u)) = Some u" using f2 i ui by simp
  have eq: "u' = ?u" using user_save_same_password[OF sv old] by simp
  have "update_fits u u'" using user_save_fits[OF sv old] .
  then have fits: "int4 (tokenVersion u + 1)" using eq by (simp add: update_fits_def)
  have "\<forall>j. row st' (Some j) = (if j = i then Some ?u else row st (Some j))"
    using user_save_row[OF sv] old eq ui row_users_cong[OF us2] by auto
  with t v i f fits show ?thesis by blast
qed


lemma update_fits_refl: "update_fits old old"
  by (simp add: update_fits_def)

lemma user_save_total_same:
  assumes "row st (Some (uid u)) = Some old" "name u = name old" "email u = email old"
    "password u = password old" "update_fits old u"
  shows "user_save d st u = Inr (u, st\<lparr>users := map (\<lambda>r. if uid r = uid u then u else r) (users st)\<rparr>)"
  using assms by (simp add: user_save_def beforeUpdate_def)

lemma signOut_valid:
  assumes "authorization req = Some (Bearer t)" "jwt_verify t (Some signingSecret) now = Inr t"
    "userId t = Some i" "i \<noteq> []" "req_user req \<noteq> None" "row st (Some i) = Some u"
    "pg_uuid d i" "int4 (tokenVersion u + 1)"
  shows "\<exists>st'. signOut d st req now = (reply 200 NoData, st')
           \<and> (\<forall>j. row st' (Some j) =
                 (if j = i then Some (u\<lparr>tokenVersion := tokenVersion u + 1, refreshToken := None\<rparr>)
                  else row st (Some j)))
           \<and> tokenBlacklist st' = insert t (tokenBlacklist st)"
proof -
  define st2 where "st2 = st\<lparr>tokenBlacklist := insert t (tokenBlacklist st),
      timers := timers st @ [(expiresAt t * 1000, t)]\<rparr>"
  let ?u = "u\<lparr>tokenVersion := tokenVersion u + 1, refreshToken := None\<rparr>"
  define st3 where "st3 = st2\<lparr>users := map (\<lambda>r. if uid r = uid ?u then ?u else r) (users st2)\<rparr>"
  have us2: "users st2 = users st" by (simp add: st2_def)
  have ui: "uid u = i" using assms(6) by (rule row_Some_uid)
  have f2: "row st2 (Some i) = Some u" using assms(6) row_users_cong[OF us2] by simp
  have old: "row st2 (Some (uid ?u)) = Some u" using f2 ui by simp
  have fits: "update_fits u ?u" using assms(8) by (simp add: update_fits_def)
  have sv: "user_save d st2 ?u = Inr (?u, st3)"
    unfolding st3_def by (rule user_save_total_same[OF old _ _ _ fits]) simp_all
  have tt: "t \<noteq> Opaque []" using assms(2) by (auto simp: jwt_verify_def)
  have so: "signOut d st req now = (reply 200 NoData, st3)"
    using assms(1-5,7) f2 sv tt
    by (simp add: signOut_def extractToken_def truthy_token_def truthy_def Let_def st2_def
          findByPk_def)
  have "\<forall>j. row st3 (Some j) = (if j = i then Some ?u else row st (Some j))"
    using user_save_row[OF sv] old ui row_users_cong[OF us2] by auto
  moreover have "tokenBlacklist st3 = insert t (tokenBlacklist st)"
    by (simp add: st3_def st2_def)
  ultimately show ?thesis using so by blast
qed

lemma row_replace:
  assumes "uid u' = i"
  shows "row (st\<lparr>users := map (\<lambda>r. if uid r = i then u' else r) (users st)\<rparr>) (Some j) =
         (if j = i then (if row st (Some i) = None then None else Some u') else row st (Some j))"
  using assms by (simp add: row_def find_map_replace)

lemma beforeCreate_uid: "uid (beforeCreate d u) = uid u"
  by (simp add: beforeCreate_def)

lemma User_create_Inr:
  assumes "User_create d st n e p uuid now = Inr (u, st1)"
  shows "uid u = uuid" and "row st (Some uuid) = None" and "users st1 = users st @ [u]"
    and "tokenBlacklist st1 = tokenBlacklist st"
  using assms by (auto simp: User_create_def Let_def beforeCreate_uid split: if_splits)

lemma row_append:
  "users st1 = users st @ [u] \<Longrightarrow>
   row st1 (Some j) =
     (case row st (Some j) of Some w \<Rightarrow> Some w | None \<Rightarrow> if uid u = j then Some u else None)"
proof -
  have "find P (xs @ [x]) = (case find P xs of Some w \<Rightarrow> Some w | None \<Rightarrow> if P x then Some x else None)"
    for P :: "user \<Rightarrow> bool" and xs x
    by (induction xs) auto
  then show "users st1 = users st @ [u] \<Longrightarrow>
   row st1 (Some j) =
     (case row st (Some j) of Some w \<Rightarrow> Some w | None \<Rightarrow> if uid u = j then Some u else None)"
    by (simp add: row_def)
qed

lemma signUp_cases:
  assumes "signUp d st req uuid now = (resp, st')"
  shows "st' = st \<or> (\<exists>n e p u st1. User_create d st n e p uuid now = Inr (u, st1)
            \<and> (st' = st1 \<or> (\<exists>a r u'. generateTokens d st1 u now = Inr ((a, r), u', st')
                   \<and> resp = reply 201 (AuthData a r (delete ''refreshToken'' (delete ''password'' (toJSON u')))))))"
  using assms
  by (fastforce simp: signUp_def split: if_splits option.splits sum.splits prod.splits)

lemma signUp_existing:
  assumes "signUp d st req uuid now = (resp, st')" "row st (Some i) = Some w"
  shows "row st' (Some i) = Some w"
proof -
  from signUp_cases[OF assms(1)] consider "st' = st"
    | n e p u where "User_create d st n e p uuid now = Inr (u, st')"
    | n e p u st1 a r u' where "User_create d st n e p uuid now = Inr (u, st1)"
        "generateTokens d st1 u now = Inr ((a, r), u', st')"
    by blast
  then show ?thesis
  proof cases
    case 1 then show ?thesis using assms(2) by simp
  next
    case 2
    show ?thesis using row_append[OF User_create_Inr(3)[OF 2], of i] assms(2) by simp
  next
    case 3
    note c = User_create_Inr[OF 3(1)]
    have ne: "i \<noteq> uuid" using c(2) assms(2) by auto
    have l: "row st1 (Some (uid u)) = Some u"
      using row_append[OF c(3), of "uid u"] c(1,2) by simp
    have "row st1 (Some i) = Some w"
      using row_append[OF c(3), of i] assms(2) by simp
    then show ?thesis using generateTokens_loaded(2)[OF 3(2) l, of i] ne c(1) by simp
  qed
qed

lemma tv_signUp:
  assumes "signUp d st req uuid now = (resp, st')" "row st (Some i) = Some w"
  shows "tokenVersion_of st' i = tokenVersion_of st i"
  using signUp_existing[OF assms] assms(2) by (simp add: tokenVersion_of_def)

lemma tv_protected:
  assumes "\<And>s r resp s'. h s r = (resp, s') \<Longrightarrow> tokenVersion_of s' i = tokenVersion_of s i"
  shows "tokenVersion_of (snd (protected d h st req now)) i = tokenVersion_of st i"
  using assms[of st "req\<lparr>req_user := Some _\<rparr>"]
  by (auto simp: protected_def split: sum.splits prod.splits) (metis snd_conv surj_pair)

lemma refresh_stale:
  assumes "row st (Some i) = Some u'" "tokenVersion u' \<noteq> v"
  shows "status (fst (refreshToken_handler d st
            (req\<lparr>body_refreshToken := Some (Jwt k (Some i) (Some v) ia ex)\<rparr>) now)) \<noteq> 200"
  using assms
  by (simp add: refreshToken_handler_def truthy_token_def jwt_verify_def reply_def findByPk_def)

lemma snd_reads:
  "snd (getUsers st req) = st" "snd (getUserById d st req) = st" "snd (getAllContent st req now) = st"
  by (auto simp: getUsers_def getUserById_def getAllContent_def Let_def split: option.splits sum.splits)

lemma getProfile_state: "getProfile d st req = (resp, st') \<Longrightarrow> st' = st"
  by (auto simp: getProfile_def split: option.splits sum.splits)

lemma tv_step_other:
  assumes "wf_store st" "row st (Some i) = Some u" "\<forall>r. op \<noteq> SignOut r"
  shows "tokenVersion_of (snd (step d st op now)) i = tokenVersion_of st i"
proof (cases op)
  case (SignUp req uuid)
  then show ?thesis using tv_signUp[OF _ assms(2), of d req uuid now]
    by (cases "signUp d st req uuid now") (simp add: step_def)
next
  case (SignIn req)
  then show ?thesis using tv_signIn[OF _ assms(1), of d req now]
    by (cases "signIn d st req now") (simp add: step_def)
next
  case (Refresh req)
  then show ?thesis using tv_refresh[of d st req now]
    by (cases "refreshToken_handler d st req now") (simp add: step_def)
next
  case (GetProfile req)
  then show ?thesis
    using tv_protected[of "getProfile d" i d st req now] getProfile_state
    by (simp add: step_def) blast
next
  case (UpdateProfile req)
  have "\<And>s r resp s'. (if upload_error r then (reply 400 NoData, s) else updateProfile d s r) = (resp, s')
          \<Longrightarrow> tokenVersion_of s' i = tokenVersion_of s i"
    using tv_updateProfile by (auto split: if_splits)
  from tv_protected[of "\<lambda>s r. if upload_error r then (reply 400 NoData, s) else updateProfile d s r", OF this]
  show ?thesis using UpdateProfile by (simp add: step_def)
next
  case (AddYoutubeLink req)
  have "\<And>s r resp s'. addYoutubeLink d s r now = (resp, s') \<Longrightarrow> tokenVersion_of s' i = tokenVersion_of s i"
    using tv_addYoutubeLink by blast
  from tv_protected[of "\<lambda>s r. addYoutubeLink d s r now", OF this]
  show ?thesis using AddYoutubeLink by (simp add: step_def)
next
  case (RemoveYoutubeLink req)
  have "\<And>s r resp s'. removeYoutubeLink d s r = (resp, s') \<Longrightarrow> tokenVersion_of s' i = tokenVersion_of s i"
    using tv_removeYoutubeLink by blast
  from tv_protected[of "removeYoutubeLink d", OF this]
  show ?thesis using RemoveYoutubeLink by (simp add: step_def)
qed (use assms(3) in \<open>simp_all add: step_def snd_reads\<close>)


section \<open>The content feed, for every request\<close>

lemma put_next:
  "put (map Some got @ replicate m None) (length got) x =
     map Some (got @ [x]) @ replicate (m - 1) None"
proof (cases m)
  case 0
  then show ?thesis by (simp add: put_def)
next
  case (Suc k)
  then show ?thesis by (simp add: put_def list_update_append)
qed

lemma fold_fill_link:
  "fold (fill_link u now) ls (map Some got @ replicate m None, length got) =
     (let items = map (\<lambda>l. content_item u l now)
                      (filter (\<lambda>l. truthy (lid l) \<and> truthy (url l)) ls)
      in (map Some (got @ items) @ replicate (m - length items) None, length (got @ items)))"
proof (induction ls arbitrary: got m)
  case Nil
  then show ?case by simp
next
  case (Cons l ls)
  show ?case
  proof (cases "truthy (lid l) \<and> truthy (url l)")
    case False
    then show ?thesis using Cons.IH[of got m] by (auto simp: fill_link_def Let_def)
  next
    case True
    have "fill_link u now l (map Some got @ replicate m None, length got) =
            (map Some (got @ [content_item u l now]) @ replicate (m - 1) None,
             length (got @ [content_item u l now]))"
      using True by (simp add: fill_link_def put_next del: map_append)
    then show ?thesis
      using True Cons.IH[of "got @ [content_item u l now]" "m - 1"]
      by (simp add: Let_def del: map_append)
  qed
qed

lemma fill_user_inv:
  "fill_user now u (map Some got @ replicate m None, length got) =
     (let items = flattened [u] now
      in (map Some (got @ items) @ replicate (m - length items) None, length (got @ items)))"
proof (cases "youtubeLinks u")
  case None
  then show ?thesis by (simp add: fill_user_def flattened_def currentLinks_def)
next
  case (Some ls)
  then show ?thesis
    using fold_fill_link[of u now ls got m]
    by (cases "ls = []") (simp_all add: fill_user_def flattened_def currentLinks_def Let_def)
qed

lemma flattened_Cons: "flattened (u # us) now = flattened [u] now @ flattened us now"
  by (simp add: flattened_def)

lemma fold_fill_user:
  "fold (fill_user now) us (map Some got @ replicate m None, length got) =
     (map Some (got @ flattened us now) @ replicate (m - length (flattened us now)) None,
      length (got @ flattened us now))"
proof (induction us arbitrary: got m)
  case Nil
  then show ?case by (simp add: flattened_def)
next
  case (Cons u us)
  show ?case
    using Cons.IH[of "got @ flattened [u] now" "m - length (flattened [u] now)"]
    by (simp add: fill_user_inv Let_def flattened_Cons[of u us] del: map_append)
qed

lemma filter_Boolean_holes: "filter_Boolean (map Some xs @ replicate m None) = xs"
  by (induction xs) (simp_all add: filter_Boolean_def List.map_filter_def)

lemma collect_content_flattened: "collect_content us now = flattened us now"
  using fold_fill_user[of now us "[]" "estimatedContentCount us"]
  by (simp add: collect_content_def filter_Boolean_holes)

lemma js_insert_desc:
  "js_insert (\<lambda>a b. c_addedAt b - c_addedAt a) x xs = insort_key (\<lambda>c. - c_addedAt c) x xs"
  by (induction xs) auto

lemma js_insert_asc:
  "js_insert (\<lambda>a b. c_addedAt a - c_addedAt b) x xs = insort_key c_addedAt x xs"
  by (induction xs) auto

lemma js_sort_getSortFn:
  "js_sort (getSortFn sb) xs =
     (if sb = ''oldest'' then sort_key c_addedAt xs else sort_key (\<lambda>c. - c_addedAt c) xs)"
  by (induction xs) (auto simp: js_sort_def getSortFn_def js_insert_desc js_insert_asc)

lemma flattened_filter:
  "flattened (filter (\<lambda>u. youtubeLinks u \<noteq> None \<and> youtubeLinks u \<noteq> Some []) us) now
     = flattened us now"
  by (induction us) (auto simp: flattened_def currentLinks_def split: option.splits)

lemma findAll_flattened:
  "flattened (findAll_with_links st) now = flattened (newest_first (users st)) now"
proof -
  have "findAll_with_links st =
          filter (\<lambda>u. youtubeLinks u \<noteq> None \<and> youtubeLinks u \<noteq> Some []) (newest_first (users st))"
    by (simp only: findAll_with_links_def newest_first_def filter_sort)
  then show ?thesis by (simp only: flattened_filter)
qed

lemma feed_eq:
  "js_sort (getSortFn sb) (collect_content (findAll_with_links st) now) = spec_feed st sb now"
  by (simp add: js_sort_getSortFn collect_content_flattened findAll_flattened spec_feed_def)

lemma nth_range:
  "a \<le> b \<Longrightarrow> b \<le> length xs \<Longrightarrow> map (\<lambda>k. xs ! k) [a..<b] = take (b - a) (drop a xs)"
  by (rule nth_equalityI) auto

lemma slice_page:
  assumes "0 \<le> s" "0 \<le> l"
  shows "slice xs s (min (s + l) (int (length xs))) =
         map (\<lambda>k. xs ! k) [nat s..<nat (min (s + l) (int (length xs)))]"
proof -
  let ?n = "int (length xs)"
  let ?e = "min (s + l) ?n"
  have e0: "0 \<le> ?e" using assms by simp
  have sl: "slice xs s ?e = take (nat (?e - min s ?n)) (drop (nat (min s ?n)) xs)"
    using assms e0 by (simp add: slice_def Let_def min_def)
  show ?thesis
  proof (cases "s \<le> ?n")
    case True
    then have "slice xs s ?e = take (nat ?e - nat s) (drop (nat s) xs)"
      using sl assms by (simp add: min_def nat_diff_distrib)
    also have "\<dots> = map (\<lambda>k. xs ! k) [nat s..<nat ?e]"
      using True assms by (subst nth_range) (auto simp: min_def nat_le_iff)
    finally show ?thesis .
  next
    case False
    then have "slice xs s ?e = []" using sl assms by (simp add: min_def)
    moreover have "[nat s..<nat ?e] = []" using False assms by (simp add: min_def)
    ultimately show ?thesis by simp
  qed
qed

lemma flattened_mset: "mset (flattened xs now) = (\<Sum>u\<in>#mset xs. mset (flattened [u] now))"
  by (induction xs) (simp_all add: flattened_def)

lemma flattened_sort_key_mset:
  "mset (flattened (sort_key f us) now) = mset (flattened us now)"
proof -
  have "mset (flattened (sort_key f us) now) =
          (\<Sum>u\<in>#mset (sort_key f us). mset (flattened [u] now))"
    by (rule flattened_mset)
  also have "\<dots> = (\<Sum>u\<in>#mset us. mset (flattened [u] now))"
    by (simp only: mset_sort)
  also have "\<dots> = mset (flattened us now)"
    by (rule flattened_mset[symmetric])
  finally show ?thesis .
qed

lemma spec_feed_mset: "mset (spec_feed st sb now) = mset (flattened (users st) now)"
  by (simp add: spec_feed_def newest_first_def flattened_sort_key_mset)

lemma spec_feed_sorted:
  "(sb = ''oldest'' \<longrightarrow> sorted_wrt (\<lambda>a b. c_addedAt a \<le> c_addedAt b) (spec_feed st sb now))
   \<and> (sb \<noteq> ''oldest'' \<longrightarrow> sorted_wrt (\<lambda>a b. c_addedAt b \<le> c_addedAt a) (spec_feed st sb now))"
proof -
  have a: "sorted_wrt (\<lambda>a b. c_addedAt a \<le> c_addedAt b) (sort_key c_addedAt xs)" for xs
    using sorted_sort_key[of c_addedAt xs] by (simp add: sorted_map)
  have d: "sorted_wrt (\<lambda>a b. c_addedAt b \<le> c_addedAt a) (sort_key (\<lambda>c. - c_addedAt c) xs)" for xs
    using sorted_sort_key[of "\<lambda>c. - c_addedAt c" xs] by (simp add: sorted_map)
  show ?thesis by (simp add: spec_feed_def a d)
qed

text \<open>For every request that passes validation, the feed answers with the page of the
  specification's sequence for the page, the limit and the order that the handler reads
  from the query string with \<open>parseInt\<close>.\<close>

lemma getAllContent_page:
  assumes "validate_getAllContent req"
  shows "getAllContent st req now =
           (reply 200
              (ContentPage
                 (spec_listContent st (used_page req) (used_limit req) (used_sortBy req) now)
                 \<lparr>total = int (length (spec_feed st (used_sortBy req) now)),
                  limit = used_limit req,
                  totalPages = ceil_div (int (length (spec_feed st (used_sortBy req) now)))
                                 (used_limit req),
                  currentPage = used_page req,
                  hasNextPage = ((used_page req - 1) * used_limit req + used_limit req
                                   < int (length (spec_feed st (used_sortBy req) now))),
                  hasPreviousPage = (1 < used_page req),
                  nextPage = (if (used_page req - 1) * used_limit req + used_limit req
                                   < int (length (spec_feed st (used_sortBy req) now))
                              then Some (used_page req + 1) else None),
                  previousPage = (if 1 < used_page req then Some (used_page req - 1) else None)\<rparr>),
            st)"
proof -
  let ?p = "used_page req" and ?l = "used_limit req" and ?sb = "used_sortBy req"
  have p1: "1 \<le> ?p" and l1: "1 \<le> ?l" by (simp_all add: used_page_def used_limit_def)
  have s0: "0 \<le> (?p - 1) * ?l" using p1 l1 by simp
  have l0: "0 \<le> ?l" using l1 by simp
  have sl: "slice (spec_feed st ?sb now) ((?p - 1) * ?l)
              (min ((?p - 1) * ?l + ?l) (int (length (spec_feed st ?sb now)))) =
            spec_listContent st ?p ?l ?sb now"
    using slice_page[OF s0 l0, of "spec_feed st ?sb now"] by (simp add: spec_listContent_def Let_def)
  have mn: "(min ((?p - 1) * ?l + ?l) (int (length (spec_feed st ?sb now)))
              < int (length (spec_feed st ?sb now)))
            = ((?p - 1) * ?l + ?l < int (length (spec_feed st ?sb now)))"
    by auto
  show ?thesis
    unfolding getAllContent_def Let_def feed_eq used_page_def[symmetric]
      used_limit_def[symmetric] used_sortBy_def[symmetric] sl mn
    using assms by simp
qed

text \<open>When \<open>parseInt\<close> reads page and limit as validation does, these are the validated
  page and limit.\<close>

lemma used_eq_valid:
  assumes "validate_getAllContent req"
    and "case query_page req of None \<Rightarrow> True | Some q \<Rightarrow> parseInt q = joi_integer q"
    and "case query_limit req of None \<Rightarrow> True | Some q \<Rightarrow> parseInt q = joi_integer q"
  shows "used_page req = valid_page req \<and> used_limit req = valid_limit req"
  using assms
  by (auto simp: validate_getAllContent_def used_page_def used_limit_def valid_page_def
        valid_limit_def parseInt_or_def split: option.splits)

lemma getAllContent_valid:
  assumes "1 \<le> p" "p \<le> 9007199254740991" "1 \<le> l" "l \<le> 50"
    "sb \<in> set [''newest'', ''oldest'', ''popular'']" "\<not> query_unknown_keys req"
    and "query_page req = Some (numeral_q p) \<or> (query_page req = None \<and> p = 1)"
    and "query_limit req = Some (numeral_q l) \<or> (query_limit req = None \<and> l = 10)"
    and "query_sortBy req = Some sb \<or> (query_sortBy req = None \<and> sb = ''newest'')"
  shows "getAllContent st req now =
           (reply 200
              (ContentPage (spec_listContent st p l sb now)
                 \<lparr>total = int (length (spec_feed st sb now)), limit = l,
                  totalPages = ceil_div (int (length (spec_feed st sb now))) l,
                  currentPage = p,
                  hasNextPage = ((p - 1) * l + l < int (length (spec_feed st sb now))),
                  hasPreviousPage = (1 < p),
                  nextPage = (if (p - 1) * l + l < int (length (spec_feed st sb now))
                              then Some (p + 1) else None),
                  previousPage = (if 1 < p then Some (p - 1) else None)\<rparr>),
            st)"
proof -
  have v: "validate_getAllContent req"
    using assms by (auto simp: validate_getAllContent_def numeral_q_def safe_integer_def)
  have pg: "used_page req = p"
    using assms(1,7) by (auto simp: used_page_def parseInt_or_def numeral_q_def)
  have lm: "used_limit req = l"
    using assms(3,4,8) by (auto simp: used_limit_def parseInt_or_def numeral_q_def)
  have sb: "used_sortBy req = sb"
    using assms(5,9) by (auto simp: used_sortBy_def)
  show ?thesis using getAllContent_page[OF v, of st now] by (simp only: pg lm sb)
qed

lemma feed_example:
  assumes "users st = [A, B]" "youtubeLinks A = Some [l1, l2]" "youtubeLinks B = Some [l3]"
    "truthy (lid l1) \<and> truthy (url l1)" "truthy (lid l2) \<and> truthy (url l2)"
    "truthy (lid l3) \<and> truthy (url l3)"
    "addedAt l1 = Some d1" "addedAt l2 = Some d2" "addedAt l3 = Some d3" "d1 < d3" "d3 < d2"
  shows "spec_feed st sb now =
           (if sb = ''oldest''
            then [content_item A l1 now, content_item B l3 now, content_item A l2 now]
            else [content_item A l2 now, content_item B l3 now, content_item A l1 now])"
proof -
  have k: "c_addedAt (content_item A l1 now) = d1" "c_addedAt (content_item A l2 now) = d2"
    "c_addedAt (content_item B l3 now) = d3"
    using assms(7-9) by (simp_all add: content_item_def)
  have fa: "flattened [A] now = [content_item A l1 now, content_item A l2 now]"
    using assms(2,4,5) by (simp add: flattened_def currentLinks_def)
  have fb: "flattened [B] now = [content_item B l3 now]"
    using assms(3,6) by (simp add: flattened_def currentLinks_def)
  have nf: "newest_first (users st) = [A, B] \<or> newest_first (users st) = [B, A]"
    using assms(1) by (simp add: newest_first_def)
  then have fl: "flattened (newest_first (users st)) now =
                   [content_item A l1 now, content_item A l2 now, content_item B l3 now]
                 \<or> flattened (newest_first (users st)) now =
                   [content_item B l3 now, content_item A l1 now, content_item A l2 now]"
    using fa fb flattened_Cons[of A "[B]" now] flattened_Cons[of B "[A]" now] by auto
  show ?thesis
    using fl k assms(10,11) by (auto simp: spec_feed_def)
qed

lemma page_example:
  assumes "spec_feed st sb now = [x, y, z]"
  shows "spec_listContent st 2 1 sb now = [y]"
  using assms by (simp add: spec_listContent_def Let_def numeral_2_eq_2)


lemma store0_users: "users store0 = [ann, bob]"
  by (simp add: store0_def)

lemma store0_feed:
  "spec_feed store0 sb now =
     (if sb = ''oldest''
      then [content_item ann (video ''10'' 10) now, content_item bob (video ''20'' 20) now,
            content_item ann (video ''30'' 30) now]
      else [content_item ann (video ''30'' 30) now, content_item bob (video ''20'' 20) now,
            content_item ann (video ''10'' 10) now])"
  by (rule feed_example[OF store0_users, of "video ''10'' 10" "video ''30'' 30" "video ''20'' 20" 10 30 20])
     (simp_all add: ann_def bob_def video_def truthy_def)

lemma request_1e1_valid: "validate_getAllContent request_1e1"
  by (simp add: validate_getAllContent_def request_1e1_def q_1e1_def empty_request_def)

section \<open>The content feed at a limit that is read twice\<close>

text \<open>
  Claim C3 fails on the code. The request \<open>GET /users/content?limit=1e1\<close> passes
  validation, which reads the limit as 10 and the page as the default 1; it is a valid
  input. The page that the claim describes for it, over the three links of the sample
  store sorted newest first, is the whole sequence of three entries. The handler reads
  the limit a second time with \<open>parseInt\<close>, which stops at the letter and yields 1: it
  answers with the first entry alone and reports a limit of 1, three pages and a next
  page.
\<close>

theorem listContent_limit_1e1:
  "validate_getAllContent request_1e1
   \<and> valid_page request_1e1 = 1 \<and> valid_limit request_1e1 = 10
   \<and> spec_listContent store0 1 10 ''newest'' 0 =
        [content_item ann (video ''30'' 30) 0, content_item bob (video ''20'' 20) 0,
         content_item ann (video ''10'' 10) 0]
   \<and> getAllContent store0 request_1e1 0 =
        (reply 200
           (ContentPage [content_item ann (video ''30'' 30) 0]
              \<lparr>total = 3, limit = 1, totalPages = 3, currentPage = 1, hasNextPage = True,
               hasPreviousPage = False, nextPage = Some 2, previousPage = None\<rparr>),
         store0)"
proof -
  have u: "used_page request_1e1 = 1" "used_limit request_1e1 = 1"
    "used_sortBy request_1e1 = ''newest''"
    by (simp_all add: used_page_def used_limit_def used_sortBy_def parseInt_or_def
          request_1e1_def q_1e1_def empty_request_def)
  have v: "valid_page request_1e1 = 1" "valid_limit request_1e1 = 10"
    by (simp_all add: valid_page_def valid_limit_def request_1e1_def q_1e1_def empty_request_def)
  have f: "spec_feed store0 ''newest'' 0 =
        [content_item ann (video ''30'' 30) 0, content_item bob (video ''20'' 20) 0,
         content_item ann (video ''10'' 10) 0]"
    by (simp add: store0_feed)
  have s10: "spec_listContent store0 1 10 ''newest'' 0 =
        [content_item ann (video ''30'' 30) 0, content_item bob (video ''20'' 20) 0,
         content_item ann (video ''10'' 10) 0]"
    by (simp add: spec_listContent_def Let_def f upt_rec)
  have s1: "spec_listContent store0 1 1 ''newest'' 0 = [content_item ann (video ''30'' 30) 0]"
    by (simp add: spec_listContent_def Let_def f upt_rec)
  have g: "getAllContent store0 request_1e1 0 =
        (reply 200
           (ContentPage [content_item ann (video ''30'' 30) 0]
              \<lparr>total = 3, limit = 1, totalPages = 3, currentPage = 1, hasNextPage = True,
               hasPreviousPage = False, nextPage = Some 2, previousPage = None\<rparr>),
         store0)"
    using getAllContent_page[OF request_1e1_valid, of store0 0]
    by (simp add: u s1 f ceil_div_def)
  show ?thesis using request_1e1_valid v s10 g by simp
qed

section \<open>Page and limit of the content feed\<close>

text \<open>
  Claim C4 (amended). The content feed rejects with 400, and changes nothing, every
  request whose supplied limit is not an integer from 1 to 50 or whose supplied page is
  not an integer of at least 1, as validation reads them; it does not clamp them. A
  request that is answered 200 with decimal numerals for page and limit reports exactly
  the supplied page and limit, which then lie in the valid ranges; an absent page is
  page 1 and an absent limit is 10.
\<close>

theorem listContent_bounds:
  "((case query_limit req of
       None \<Rightarrow> False
     | Some q \<Rightarrow> (case joi_integer q of None \<Rightarrow> True | Some n \<Rightarrow> n < 1 \<or> 50 < n))
    \<or> (case query_page req of
         None \<Rightarrow> False
       | Some q \<Rightarrow> (case joi_integer q of None \<Rightarrow> True | Some n \<Rightarrow> n < 1))
    \<longrightarrow> getAllContent st req now = (reply 400 NoData, st))
   \<and> (\<forall>items pg. getAllContent st req now = (reply 200 (ContentPage items pg), st) \<longrightarrow>
         (\<forall>p. query_page req = Some (numeral_q p) \<longrightarrow> currentPage pg = p \<and> 1 \<le> p)
         \<and> (\<forall>l. query_limit req = Some (numeral_q l) \<longrightarrow> limit pg = l \<and> 1 \<le> l \<and> l \<le> 50)
         \<and> (query_page req = None \<longrightarrow> currentPage pg = 1)
         \<and> (query_limit req = None \<longrightarrow> limit pg = 10))"
proof -
  have rej: "getAllContent st req now = (reply 400 NoData, st)"
    if "(case query_limit req of
       None \<Rightarrow> False
     | Some q \<Rightarrow> (case joi_integer q of None \<Rightarrow> True | Some n \<Rightarrow> n < 1 \<or> 50 < n))
    \<or> (case query_page req of
         None \<Rightarrow> False
       | Some q \<Rightarrow> (case joi_integer q of None \<Rightarrow> True | Some n \<Rightarrow> n < 1))"
  proof -
    from that have "\<not> validate_getAllContent req"
      by (auto simp: validate_getAllContent_def split: option.splits)
    then show ?thesis by (simp add: getAllContent_def)
  qed
  have acc: "(\<forall>p. query_page req = Some (numeral_q p) \<longrightarrow> currentPage pg = p \<and> 1 \<le> p)
         \<and> (\<forall>l. query_limit req = Some (numeral_q l) \<longrightarrow> limit pg = l \<and> 1 \<le> l \<and> l \<le> 50)
         \<and> (query_page req = None \<longrightarrow> currentPage pg = 1)
         \<and> (query_limit req = None \<longrightarrow> limit pg = 10)"
    if ok: "getAllContent st req now = (reply 200 (ContentPage items pg), st)" for items pg
  proof -
    have v: "validate_getAllContent req"
    proof (rule ccontr)
      assume "\<not> validate_getAllContent req"
      then have "getAllContent st req now = (reply 400 NoData, st)" by (simp add: getAllContent_def)
      with ok show False by (simp add: reply_def)
    qed
    from getAllContent_page[OF v, of st now] ok
    have cp: "currentPage pg = used_page req" and lm: "limit pg = used_limit req"
      by (simp_all add: reply_def)
    have 1: "currentPage pg = p \<and> 1 \<le> p" if "query_page req = Some (numeral_q p)" for p
      using that v cp
      by (auto simp: validate_getAllContent_def numeral_q_def parseInt_or_def used_page_def
            split: if_splits)
    have 2: "limit pg = l \<and> 1 \<le> l \<and> l \<le> 50" if "query_limit req = Some (numeral_q l)" for l
      using that v lm
      by (auto simp: validate_getAllContent_def numeral_q_def parseInt_or_def used_limit_def
            split: if_splits)
    have 3: "currentPage pg = 1" if "query_page req = None"
      using that cp by (simp add: parseInt_or_def used_page_def)
    have 4: "limit pg = 10" if "query_limit req = None"
      using that lm by (simp add: parseInt_or_def used_limit_def)
    show ?thesis using 1 2 3 4 by blast
  qed
  show ?thesis using rej acc by blast
qed

theorem listContent_bounds_witness:
  "getAllContent store0 (empty_request\<lparr>query_page := Some (numeral_q 0)\<rparr>) 0 = (reply 400 NoData, store0)
   \<and> (\<exists>items pg. getAllContent store0 (empty_request\<lparr>query_limit := Some (numeral_q 50)\<rparr>) 0
          = (reply 200 (ContentPage items pg), store0) \<and> limit pg = 50 \<and> currentPage pg = 1)"
proof -
  let ?r = "empty_request\<lparr>query_limit := Some (numeral_q 50)\<rparr>"
  have a: "getAllContent store0 (empty_request\<lparr>query_page := Some (numeral_q 0)\<rparr>) 0 = (reply 400 NoData, store0)"
    using listContent_bounds[of "empty_request\<lparr>query_page := Some (numeral_q 0)\<rparr>" store0 0]
    by (simp add: numeral_q_def empty_request_def safe_integer_def)
  obtain items pg where g: "getAllContent store0 ?r 0 = (reply 200 (ContentPage items pg), store0)"
    using getAllContent_valid[of 1 50 "''newest''" ?r store0 0] by (simp add: empty_request_def)
  have q: "query_page ?r = None" "query_limit ?r = Some (numeral_q 50)"
    by (simp_all add: empty_request_def)
  from listContent_bounds[of ?r store0 0] g q have "limit pg = 50 \<and> currentPage pg = 1"
    by blast
  with a g show ?thesis by blast
qed

text \<open>The claim as stated fails: a limit of 100 is not clamped to 50, the request is
  rejected.\<close>

theorem listContent_clamp_counterexample:
  "getAllContent store0 (empty_request\<lparr>query_limit := Some (numeral_q 100)\<rparr>) 0
     = (reply 400 NoData, store0)"
  by (simp add: getAllContent_def validate_getAllContent_def numeral_q_def empty_request_def
        safe_integer_def)


section \<open>The refresh endpoint\<close>

lemma jwt_verify_invalid_or_expired:
  "jwt_verify t (Some signingSecret) now = (if invalid_or_expired t now
      then Inl (case t of Opaque s \<Rightarrow> JsonWebTokenError
                | Jwt k i v ia ex \<Rightarrow> if k \<noteq> signingSecret then JsonWebTokenError else TokenExpiredError)
      else Inr t)"
  by (auto simp: jwt_verify_def invalid_or_expired_def signingSecret_nonempty split: token.splits)

lemma env0_uuid: "pg_uuid env0 ann_id" "pg_uuid env0 bob_id" "\<not> pg_uuid env0 ''x''"
  by (simp_all add: env0_def uuid_format_def ann_id_def bob_id_def hex_digit_def)

lemma ids_differ: "ann_id \<noteq> bob_id" "bob_id \<noteq> ann_id" "ann_id \<noteq> []"
  by (simp_all add: ann_id_def bob_id_def)

lemma store1_ann:
  "row store1 (Some ann_id) = Some (ann\<lparr>refreshToken := Some ann_refresh\<rparr>)"
  by (simp add: row_def store1_def ann_def)

text \<open>A token that carries the controller's signature and names a key that is no UUID
  is answered 500: the lookup of the user fails outside the inner \<open>try\<close>.\<close>

lemma refresh_odd_key:
  "refreshToken_handler env0 store1 (empty_request\<lparr>body_refreshToken := Some odd_refresh\<rparr>) 6000
     = (reply 500 NoData, store1)"
  by (simp add: refreshToken_handler_def truthy_token_def odd_refresh_def jwt_verify_def
        signingSecret_nonempty findByPk_def env0_uuid)

text \<open>
  Claim C2 (amended). A refresh request without a token, or with the empty string as
  token, is answered 400. A request that presents a non-empty token whose signature is
  invalid or which is expired is answered 401. A request that presents a non-empty token
  whose \<open>userId\<close> is absent or a UUID is answered 401 if and only if the token's
  signature is invalid or the token is expired, or no user with the token's \<open>userId\<close>
  exists, or the token is not the \<open>refreshToken\<close> stored for that user, or its
  \<open>version\<close> is not the user's \<open>tokenVersion\<close>; otherwise it is answered
  200 with a new one-day access token for that user. No request changes the state, so
  the stored refresh token stays as it is.
\<close>

theorem refresh_outcome:
  "snd (refreshToken_handler d st req now) = st
   \<and> (\<not> truthy_token (body_refreshToken req) \<longrightarrow>
         fst (refreshToken_handler d st req now) = reply 400 NoData)
   \<and> (\<forall>t. body_refreshToken req = Some t \<and> t \<noteq> Opaque [] \<and> invalid_or_expired t now \<longrightarrow>
         fst (refreshToken_handler d st req now) = reply 401 NoData)
   \<and> (\<forall>t. body_refreshToken req = Some t \<and> t \<noteq> Opaque [] \<and> uuid_or_absent d (userId t) \<longrightarrow>
         (status (fst (refreshToken_handler d st req now)) = 401 \<longleftrightarrow>
            invalid_or_expired t now
            \<or> (case row st (userId t) of
                  None \<Rightarrow> True
                | Some u \<Rightarrow> refreshToken u \<noteq> Some t \<or> version t \<noteq> Some (tokenVersion u)))
         \<and> (status (fst (refreshToken_handler d st req now)) \<noteq> 401 \<longrightarrow>
              (\<exists>u. findByPk d st (userId t) = Inr (Some u) \<and> userId t = Some (uid u)
                  \<and> fst (refreshToken_handler d st req now) =
                      reply 200 (AccessData (Jwt signingSecret (Some (uid u)) None (now div 1000)
                                               (now div 1000 + 86400))))))"
proof (intro conjI allI impI)
  show "snd (refreshToken_handler d st req now) = st"
    by (cases "refreshToken_handler d st req now") (auto dest: tv_refresh)
  show "fst (refreshToken_handler d st req now) = reply 400 NoData"
    if "\<not> truthy_token (body_refreshToken req)"
    using that by (auto simp: refreshToken_handler_def truthy_token_def split: option.splits)
  show "fst (refreshToken_handler d st req now) = reply 401 NoData"
    if "body_refreshToken req = Some t \<and> t \<noteq> Opaque [] \<and> invalid_or_expired t now" for t
    using that
    by (simp add: refreshToken_handler_def truthy_token_def jwt_verify_invalid_or_expired)
next
  fix t
  assume h: "body_refreshToken req = Some t \<and> t \<noteq> Opaque [] \<and> uuid_or_absent d (userId t)"
  then have tt: "truthy_token (Some t)" by (simp add: truthy_token_def)
  from h have f: "findByPk d st (userId t) = Inr (row st (userId t))" by (simp add: findByPk_eq)
  show "status (fst (refreshToken_handler d st req now)) = 401 \<longleftrightarrow>
            invalid_or_expired t now
            \<or> (case row st (userId t) of
                  None \<Rightarrow> True
                | Some u \<Rightarrow> refreshToken u \<noteq> Some t \<or> version t \<noteq> Some (tokenVersion u))"
    using h tt f
    by (auto simp: refreshToken_handler_def jwt_verify_invalid_or_expired reply_def
             split: option.splits)
  assume n: "status (fst (refreshToken_handler d st req now)) \<noteq> 401"
  from h tt n f obtain u where u: "row st (userId t) = Some u"
    and r: "fst (refreshToken_handler d st req now) =
              reply 200 (AccessData (jwt_sign (Some (uid u)) None signingSecret one_day now))"
    by (auto simp: refreshToken_handler_def jwt_verify_invalid_or_expired reply_def
             split: option.splits if_splits)
  from u have "userId t = Some (uid u)"
    by (cases "userId t") (auto simp: row_def dest: row_Some_uid[unfolded row_def, simplified])
  with u r f show "\<exists>u. findByPk d st (userId t) = Inr (Some u) \<and> userId t = Some (uid u)
                  \<and> fst (refreshToken_handler d st req now) =
                      reply 200 (AccessData (Jwt signingSecret (Some (uid u)) None (now div 1000)
                                               (now div 1000 + 86400)))"
    by (auto simp: jwt_sign_def one_day_def)
qed

theorem refresh_outcome_witness:
  "ann_refresh \<noteq> Opaque [] \<and> uuid_or_absent env0 (userId ann_refresh)
   \<and> refreshToken_handler env0 store1 (empty_request\<lparr>body_refreshToken := Some ann_refresh\<rparr>) 6000
       = (reply 200 (AccessData (Jwt signingSecret (Some ann_id) None 6 86406)), store1)
   \<and> invalid_or_expired ann_refresh 604805000
   \<and> fst (refreshToken_handler env0 store1 (empty_request\<lparr>body_refreshToken := Some ann_refresh\<rparr>)
            604805000) = reply 401 NoData"
proof -
  let ?req = "empty_request\<lparr>body_refreshToken := Some ann_refresh\<rparr>"
  have ua: "uuid_or_absent env0 (userId ann_refresh)"
    by (simp add: uuid_or_absent_def ann_refresh_def env0_uuid)
  have t: "body_refreshToken ?req = Some ann_refresh \<and> ann_refresh \<noteq> Opaque []
            \<and> uuid_or_absent env0 (userId ann_refresh)"
    using ua by (simp add: ann_refresh_def)
  have ok: "\<not> (invalid_or_expired ann_refresh 6000
            \<or> (case row store1 (userId ann_refresh) of
                  None \<Rightarrow> True
                | Some u \<Rightarrow> refreshToken u \<noteq> Some ann_refresh
                    \<or> version ann_refresh \<noteq> Some (tokenVersion u)))"
  proof -
    have "userId ann_refresh = Some ann_id" "version ann_refresh = Some 0"
      "\<not> invalid_or_expired ann_refresh 6000"
      by (simp_all add: ann_refresh_def invalid_or_expired_def)
    then show ?thesis by (simp add: store1_ann) (simp add: ann_def)
  qed
  have ex: "body_refreshToken ?req = Some ann_refresh \<and> ann_refresh \<noteq> Opaque []
            \<and> invalid_or_expired ann_refresh 604805000"
    by (simp add: ann_refresh_def invalid_or_expired_def)
  note r = refresh_outcome[of env0 store1 ?req 6000]
  from r t ok have n: "status (fst (refreshToken_handler env0 store1 ?req 6000)) \<noteq> 401" by blast
  from r t n obtain u where u: "findByPk env0 store1 (userId ann_refresh) = Inr (Some u)"
    "userId ann_refresh = Some (uid u)"
    "fst (refreshToken_handler env0 store1 ?req 6000) =
       reply 200 (AccessData (Jwt signingSecret (Some (uid u)) None (6000 div 1000)
                                (6000 div 1000 + 86400)))" by blast
  from u(2) have "uid u = ann_id" by (simp add: ann_refresh_def)
  with u(3) have "fst (refreshToken_handler env0 store1 ?req 6000) =
       reply 200 (AccessData (Jwt signingSecret (Some ann_id) None 6 86406))" by simp
  moreover from r have "snd (refreshToken_handler env0 store1 ?req 6000) = store1" by blast
  moreover from refresh_outcome[of env0 store1 ?req 604805000] ex
  have "fst (refreshToken_handler env0 store1 ?req 604805000) = reply 401 NoData" by blast
  ultimately show ?thesis using t ex by (simp add: prod_eq_iff)
qed

text \<open>The claim as stated fails: the empty string is a token whose signature is
  invalid, and the answer is 400, not 401.\<close>

theorem refresh_empty_counterexample:
  "invalid_or_expired (Opaque []) 0
   \<and> status (fst (refreshToken_handler env0 store0
                    (empty_request\<lparr>body_refreshToken := Some (Opaque [])\<rparr>) 0)) = 400"
  by (simp add: invalid_or_expired_def refreshToken_handler_def truthy_token_def reply_def)


section \<open>Issued access tokens and the middleware\<close>

lemma store0_wf: "wf_store store0"
  by (simp add: wf_store_def store0_def ann_def bob_def ids_differ)

lemma store0_ann: "row store0 (Some ann_id) = Some ann"
  by (simp add: row_def store0_def ann_def bob_def)

lemma generateTokens_access:
  assumes "generateTokens d st u now = Inr ((a, r), u', st')"
  shows "a = Jwt signingSecret (Some (uid u)) None (now div 1000) (now div 1000 + 86400)"
    and "r = Jwt signingSecret (Some (uid u)) (Some (tokenVersion u)) (now div 1000)
               (now div 1000 + 604800)"
    and "tokenBlacklist st' = tokenBlacklist st"
    and "row st (Some (uid u)) \<noteq> None \<Longrightarrow> row st' (Some (uid u)) = Some u'"
proof -
  let ?r = "jwt_sign (Some (uid u)) (Some (tokenVersion u)) signingSecret seven_days now"
  from assms have sv: "user_save d st (u\<lparr>refreshToken := Some ?r\<rparr>) = Inr (u', st')"
    and a: "a = jwt_sign (Some (uid u)) None signingSecret one_day now" and r: "r = ?r"
    by (auto simp: generateTokens_def Let_def split: sum.splits)
  show "a = Jwt signingSecret (Some (uid u)) None (now div 1000) (now div 1000 + 86400)"
    using a by (simp add: jwt_sign_def one_day_def)
  show "r = Jwt signingSecret (Some (uid u)) (Some (tokenVersion u)) (now div 1000)
               (now div 1000 + 604800)"
    using r by (simp add: jwt_sign_def seven_days_def)
  show "tokenBlacklist st' = tokenBlacklist st" using user_save_frame[OF sv] by simp
  show "row st' (Some (uid u)) = Some u'" if "row st (Some (uid u)) \<noteq> None"
    using user_save_row[OF sv, of "uid u"] that by simp
qed

text \<open>When the middleware's \<open>JWT_SECRET\<close> is the key that the controller signs with,
  an issued access token is accepted and resolved to its user in every state in which the
  user exists and the token is not blacklisted, at every time before the expiry.\<close>

lemma issued_token_same_secret:
  assumes "JWT_SECRET d = Some signingSecret"
    and "generateTokens d st u now = Inr ((a, r), u', st')"
    and "uid u \<noteq> []" and "pg_uuid d (uid u)"
    and "row st1 (Some (uid u)) \<noteq> None" "a \<notin> tokenBlacklist st1" "now1 div 1000 < expiresAt a"
  shows "authorize d st1 (req\<lparr>authorization := Some (Bearer a)\<rparr>) now1 = Inr (uid u)"
  using assms generateTokens_access(1)[OF assms(2)] signingSecret_nonempty
  by (simp add: authorize_Inr jwt_verify_def)

text \<open>With any other value of \<open>JWT_SECRET\<close>, or none, the middleware answers 401 to
  every token that the controller issues, in every state and at every time.\<close>

lemma issued_token_other_secret:
  assumes "JWT_SECRET d \<noteq> Some signingSecret"
    and "generateTokens d st u now = Inr ((a, r), u', st')"
  shows "authorize d st1 (req\<lparr>authorization := Some (Bearer a)\<rparr>) now1 = Inl (reply 401 NoData)"
  using assms(1) generateTokens_access(1)[OF assms(2)]
  by (auto simp: authorize_def extractToken_def truthy_token_def jwt_verify_def
           split: option.splits)

lemma store0_ann_tokens:
  "generateTokens d store0 ann 5000 =
     Inr ((ann_token, ann_refresh), ann\<lparr>refreshToken := Some ann_refresh\<rparr>, store1)"
proof -
  have u: "uid ann = ann_id" "tokenVersion ann = 0" by (simp_all add: ann_def)
  have t: "jwt_sign (Some ann_id) None signingSecret one_day 5000 = ann_token"
    "jwt_sign (Some ann_id) (Some 0) signingSecret seven_days 5000 = ann_refresh"
    by (simp_all add: jwt_sign_def one_day_def seven_days_def ann_token_def ann_refresh_def)
  have old: "row store0 (Some (uid (ann\<lparr>refreshToken := Some ann_refresh\<rparr>))) = Some ann"
    using store0_ann u by simp
  have "user_save d store0 (ann\<lparr>refreshToken := Some ann_refresh\<rparr>) =
          Inr (ann\<lparr>refreshToken := Some ann_refresh\<rparr>,
               store0\<lparr>users := map (\<lambda>r. if uid r = uid (ann\<lparr>refreshToken := Some ann_refresh\<rparr>)
                                         then ann\<lparr>refreshToken := Some ann_refresh\<rparr> else r)
                                  (users store0)\<rparr>)"
    by (rule user_save_total_same[OF old]) (simp_all add: update_fits_def)
  moreover have "store0\<lparr>users := map (\<lambda>r. if uid r = uid (ann\<lparr>refreshToken := Some ann_refresh\<rparr>)
                                         then ann\<lparr>refreshToken := Some ann_refresh\<rparr> else r)
                                  (users store0)\<rparr> = store1"
    using ids_differ(1) by (simp add: store0_def store1_def u) (auto simp: ann_def bob_def)
  ultimately show ?thesis by (simp add: generateTokens_def Let_def u t)
qed

lemma ann_signs_in:
  assumes "joi_email d = joi_email env0" "bcrypt_compare d = bcrypt_compare env0"
  shows "signIn d store0 signin_request 5000 =
           (reply 200
              (AuthData ann_token ann_refresh
                 (delete ''refreshToken''
                    (delete ''password'' (toJSON (ann\<lparr>refreshToken := Some ann_refresh\<rparr>))))),
            store1)"
proof -
  have v: "validate_login d signin_request"
    by (simp add: validate_login_def signin_request_def empty_request_def assms env0_def
          only_keys_def body_keys_def)
  have f: "findOne_email store0 ''ann@x.com'' = Some ann"
    by (simp add: findOne_email_def store0_def ann_def)
  have c: "bcrypt_compare d ''password1'' (password ann)"
    by (simp add: assms env0_def ann_def)
  show ?thesis
    using v f c by (simp add: signIn_def signin_request_def empty_request_def store0_ann_tokens)
qed

text \<open>
  Claim C5 fails on the code. \<open>generateTokens\<close> signs with a key that is written in
  the controller, as the refresh and the sign-out handlers verify with it; the
  middleware \<open>authorize\<close> alone verifies with the environment variable
  \<open>JWT_SECRET\<close>. Issuance and verification use the same secret only in a deployment
  that sets the variable to the controller's key. In a deployment that sets another key,
  or none, Ann signs in with her password, is answered 200 with a token pair, and the
  middleware answers 401 to the access token at the same instant, although the token is
  unexpired and not revoked and Ann exists.
\<close>

theorem issued_access_token_rejected:
  "JWT_SECRET env_k = Some ''k'' \<and> JWT_SECRET env_unset = None
   \<and> (\<exists>obj. signIn env_k store0 signin_request 5000
               = (reply 200 (AuthData ann_token ann_refresh obj), store1))
   \<and> (\<exists>obj. signIn env_unset store0 signin_request 5000
               = (reply 200 (AuthData ann_token ann_refresh obj), store1))
   \<and> row store1 (Some ann_id) = Some (ann\<lparr>refreshToken := Some ann_refresh\<rparr>)
   \<and> tokenBlacklist store1 = {}
   \<and> userId ann_token = Some ann_id \<and> 5000 div 1000 < expiresAt ann_token
   \<and> authorize env_k store1 ann_request 5000 = Inl (reply 401 NoData)
   \<and> authorize env_unset store1 ann_request 5000 = Inl (reply 401 NoData)
   \<and> authorize env0 store1 ann_request 5000 = Inr ann_id"
proof -
  have k: "signIn env_k store0 signin_request 5000 =
           (reply 200
              (AuthData ann_token ann_refresh
                 (delete ''refreshToken''
                    (delete ''password'' (toJSON (ann\<lparr>refreshToken := Some ann_refresh\<rparr>))))),
            store1)"
    by (rule ann_signs_in) (simp_all add: env_k_def)
  have n: "signIn env_unset store0 signin_request 5000 =
           (reply 200
              (AuthData ann_token ann_refresh
                 (delete ''refreshToken''
                    (delete ''password'' (toJSON (ann\<lparr>refreshToken := Some ann_refresh\<rparr>))))),
            store1)"
    by (rule ann_signs_in) (simp_all add: env_unset_def)
  have ak: "authorize env_k store1 ann_request 5000 = Inl (reply 401 NoData)"
    by (simp add: authorize_def extractToken_def ann_request_def empty_request_def
          truthy_token_def isTokenBlacklisted_def store1_def ann_token_def jwt_verify_def
          env_k_def signingSecret_def)
  have an: "authorize env_unset store1 ann_request 5000 = Inl (reply 401 NoData)"
    by (simp add: authorize_def extractToken_def ann_request_def empty_request_def
          truthy_token_def isTokenBlacklisted_def store1_def ann_token_def jwt_verify_def
          env_unset_def)
  have a0: "authorize env0 store1 ann_request 5000 = Inr ann_id"
    by (simp add: authorize_Inr ann_request_def empty_request_def ann_token_def store1_ann
          jwt_verify_def signingSecret_nonempty env0_uuid ids_differ)
       (simp add: store1_def env0_def signingSecret_nonempty)
  have m: "JWT_SECRET env_k = Some ''k''" "JWT_SECRET env_unset = None"
    "tokenBlacklist store1 = {}" "userId ann_token = Some ann_id"
    "5000 div 1000 < expiresAt ann_token"
    by (simp_all add: env_k_def env_unset_def store1_def ann_token_def)
  have k': "\<exists>obj. signIn env_k store0 signin_request 5000
               = (reply 200 (AuthData ann_token ann_refresh obj), store1)"
    using k by blast
  have n': "\<exists>obj. signIn env_unset store0 signin_request 5000
               = (reply 200 (AuthData ann_token ann_refresh obj), store1)"
    using n by blast
  show ?thesis using k' n' ak an a0 m store1_ann by simp
qed


section \<open>The sign-out route\<close>

lemma signOut_bearer_200:
  "authorization req = Some (Bearer t) \<Longrightarrow> fst (signOut d st req now) = reply 200 NoData"
  by (auto simp: signOut_def extractToken_def Let_def split: sum.splits option.splits prod.splits)

text \<open>
  Claim C6 (amended). A request to \<open>/auth/signout\<close> that carries a bearer token is
  answered 200 exactly when the middleware \<open>authorize\<close> accepts the token: it is not
  empty, not blacklisted, signed with \<open>JWT_SECRET\<close>, not expired, and names an existing
  user. Every other bearer token (malformed, expired, blacklisted) is answered 401 by the
  middleware, the handler is not run and the state is unchanged. The handler \<open>signOut\<close>
  on its own answers 200 to every request with a bearer token.
\<close>

theorem signout_status:
  assumes "authorization req = Some (Bearer t)"
  shows "status (fst (route_signout d st req now)) =
           (if t \<noteq> Opaque [] \<and> t \<notin> tokenBlacklist st \<and> jwt_verify t (JWT_SECRET d) now = Inr t
               \<and> truthy (userId t) \<and> (\<exists>u. findByPk d st (userId t) = Inr (Some u))
            then 200 else 401)
         \<and> (status (fst (route_signout d st req now)) = 401 \<longrightarrow>
               snd (route_signout d st req now) = st)
         \<and> (\<forall>s. fst (signOut d s req now) = reply 200 NoData)"
proof (cases "authorize d st req now")
  case (Inl r)
  have r: "r = reply 401 NoData"
    using Inl assms
    by (auto simp: authorize_def extractToken_def split: option.splits sum.splits if_splits)
  have no: "\<not> (t \<noteq> Opaque [] \<and> t \<notin> tokenBlacklist st \<and> jwt_verify t (JWT_SECRET d) now = Inr t
               \<and> truthy (userId t) \<and> (\<exists>u. findByPk d st (userId t) = Inr (Some u)))"
  proof
    assume a: "t \<noteq> Opaque [] \<and> t \<notin> tokenBlacklist st \<and> jwt_verify t (JWT_SECRET d) now = Inr t
               \<and> truthy (userId t) \<and> (\<exists>u. findByPk d st (userId t) = Inr (Some u))"
    then obtain i where i: "userId t = Some i" "i \<noteq> []"
      by (cases "userId t") (auto simp: truthy_def)
    from a i have "pg_uuid d i \<and> row st (Some i) \<noteq> None"
      by (auto simp: findByPk_Inr_Some uuid_or_absent_def)
    with a i assms have "authorize d st req now = Inr i" by (simp add: authorize_Inr)
    with Inl show False by simp
  qed
  have "route_signout d st req now = (r, st)"
    using Inl by (simp add: route_signout_def protected_def)
  then show ?thesis using r no signOut_bearer_200[OF assms] by (simp add: reply_def)
next
  case (Inr i)
  then have yes: "t \<noteq> Opaque [] \<and> t \<notin> tokenBlacklist st \<and> jwt_verify t (JWT_SECRET d) now = Inr t
               \<and> truthy (userId t) \<and> (\<exists>u. findByPk d st (userId t) = Inr (Some u))"
    using assms by (auto simp: authorize_Inr truthy_def jwt_verify_def findByPk_def)
  have "route_signout d st req now = signOut d st (req\<lparr>req_user := Some i\<rparr>) now"
    using Inr by (simp add: route_signout_def protected_def)
  moreover have "fst (signOut d st (req\<lparr>req_user := Some i\<rparr>) now) = reply 200 NoData"
    using assms by (intro signOut_bearer_200) simp
  ultimately show ?thesis using yes signOut_bearer_200[OF assms] by (simp add: reply_def)
qed

theorem signout_status_witness:
  "authorization ann_request = Some (Bearer ann_token)
   \<and> status (fst (route_signout env0 store0 ann_request 5000)) = 200
   \<and> status (fst (route_signout env0 store0 ann_request 86405000)) = 401"
proof -
  have a: "authorization ann_request = Some (Bearer ann_token)"
    by (simp add: ann_request_def empty_request_def)
  have u: "userId ann_token = Some ann_id" "ann_token \<noteq> Opaque []" "ann_token \<notin> tokenBlacklist store0"
    by (simp_all add: ann_token_def store0_def)
  have v: "jwt_verify ann_token (JWT_SECRET env0) 5000 = Inr ann_token"
    "jwt_verify ann_token (JWT_SECRET env0) 86405000 \<noteq> Inr ann_token"
    by (simp_all add: jwt_verify_def ann_token_def env0_def signingSecret_nonempty)
  have f: "findByPk env0 store0 (Some ann_id) = Inr (Some ann)"
    by (simp add: findByPk_def env0_uuid store0_ann)
  show ?thesis
    using signout_status[OF a, of env0 store0 5000] signout_status[OF a, of env0 store0 86405000]
      a u v f
    by (simp add: truthy_def ids_differ)
qed

text \<open>The claim as stated fails: a token that is already blacklisted is answered
  401.\<close>

theorem signout_blacklisted_counterexample:
  "status (fst (route_signout env0 (store0\<lparr>tokenBlacklist := {ann_token}\<rparr>) ann_request 5000)) = 401"
  by (simp add: route_signout_def protected_def authorize_def extractToken_def ann_request_def
        empty_request_def truthy_token_def isTokenBlacklisted_def ann_token_def reply_def)


section \<open>The token version\<close>

text \<open>What holds of \<open>tokenVersion\<close>. An update of a row that carries a new password
  and is accepted increments the version by one (the hook \<open>beforeUpdate\<close>; no
  controller makes such an update). Every operation of the application other than a
  sign-out leaves the version of every user as it is (\<open>tv_step_other\<close>). A sign-out
  increments the version by one when the middleware lets it pass, the token also
  carries the signature that the controller verifies, and the incremented version fits
  the column; otherwise it leaves the version as it is.\<close>

lemma user_update_password:
  assumes "row st (Some i) = Some u"
    and "user_update d st u (no_values\<lparr>v_password := Some p\<rparr>) = Inr (u', st')"
  shows "tokenVersion_of st' i = Some (if p \<noteq> password u then tokenVersion u + 1 else tokenVersion u)"
proof -
  have ui: "uid u = i" using assms(1) by (rule row_Some_uid)
  have sv: "set_values u (no_values\<lparr>v_password := Some p\<rparr>) = u\<lparr>password := p\<rparr>"
    by (simp add: set_values_def no_values_def)
  from assms(2) have s: "user_save d st (u\<lparr>password := p\<rparr>) = Inr (u', st')"
    by (simp add: user_update_def sv)
  have old: "row st (Some (uid (u\<lparr>password := p\<rparr>))) = Some u" using assms(1) ui by simp
  have u': "u' = beforeUpdate d u (u\<lparr>password := p\<rparr>)" using user_save_result[OF s old] .
  have "row st' (Some i) = Some u'" using user_save_row[OF s, of i] old ui by simp
  then show ?thesis by (simp add: tokenVersion_of_def u' beforeUpdate_def)
qed

lemma tv_route_signout:
  assumes "row st (Some i) = Some u"
  shows "tokenVersion_of (snd (route_signout d st req now)) i =
           Some (if status (fst (route_signout d st req now)) = 200
                    \<and> (\<exists>t. authorization req = Some (Bearer t) \<and> signedWith t = signingSecret
                           \<and> userId t = Some i)
                    \<and> int4 (tokenVersion u + 1)
                 then tokenVersion u + 1 else tokenVersion u)"
proof (cases "authorize d st req now")
  case (Inl r)
  then have rs: "route_signout d st req now = (r, st)" by (simp add: route_signout_def protected_def)
  have "status r \<noteq> 200" using authorize_Inl[OF Inl] by (auto simp: reply_def)
  then show ?thesis using rs assms by (simp add: tokenVersion_of_def)
next
  case (Inr k)
  then obtain t where t: "authorization req = Some (Bearer t)" "t \<notin> tokenBlacklist st"
    "jwt_verify t (JWT_SECRET d) now = Inr t" "userId t = Some k" "k \<noteq> []"
    "pg_uuid d k" "row st (Some k) \<noteq> None" using authorize_Inr by blast
  let ?req = "req\<lparr>req_user := Some k\<rparr>"
  have rs: "route_signout d st req now = signOut d st ?req now"
    using Inr by (simp add: route_signout_def protected_def)
  obtain resp st' where so: "signOut d st ?req now = (resp, st')" by (cases "signOut d st ?req now")
  have r200: "resp = reply 200 NoData"
    using signOut_bearer_200[of ?req t d st now] t(1) so by simp
  from t(7) obtain w where w: "row st (Some k) = Some w" by auto
  show ?thesis
  proof (cases "signedWith t = signingSecret \<and> int4 (tokenVersion w + 1)")
    case True
    from t(3) obtain kk iv v ia ex where tj: "t = Jwt kk iv v ia ex" "now div 1000 < ex"
      by (auto simp: jwt_verify_Inr)
    have v: "jwt_verify t (Some signingSecret) now = Inr t"
      using True tj signingSecret_nonempty by (simp add: jwt_verify_def)
    from signOut_valid[of ?req t now k st w d] t v w True
    obtain st2 where s2: "signOut d st ?req now = (reply 200 NoData, st2)"
      "\<forall>j. row st2 (Some j) =
                 (if j = k then Some (w\<lparr>tokenVersion := tokenVersion w + 1, refreshToken := None\<rparr>)
                  else row st (Some j))" by auto
    show ?thesis
    proof (cases "k = i")
      case True
      then have "w = u" using w assms by simp
      then show ?thesis using rs s2 t(1,4) True \<open>signedWith t = signingSecret \<and> int4 (tokenVersion w + 1)\<close>
        by (simp add: tokenVersion_of_def reply_def)
    next
      case False
      then show ?thesis using rs s2 t(1,4) assms by (auto simp: tokenVersion_of_def)
    qed
  next
    case False
    have "users st' = users st"
    proof (rule ccontr)
      assume n: "users st' \<noteq> users st"
      from signOut_effect[OF so] n t(1) obtain j u2 where
        e: "jwt_verify t (Some signingSecret) now = Inr t" "userId t = Some j"
           "row st (Some j) = Some u2" "int4 (tokenVersion u2 + 1)"
        by auto
      from e(2) t(4) have "j = k" by simp
      with e(3) w have "u2 = w" by simp
      moreover from e(1) have "signedWith t = signingSecret" by (auto simp: jwt_verify_Inr)
      ultimately show False using False e(4) by simp
    qed
    then have same: "tokenVersion_of st' i = tokenVersion_of st i"
      using row_users_cong[of st' st] by (simp add: tokenVersion_of_def)
    have "\<not> ((\<exists>t. authorization req = Some (Bearer t) \<and> signedWith t = signingSecret
                           \<and> userId t = Some i) \<and> int4 (tokenVersion u + 1))"
    proof
      assume a: "(\<exists>t. authorization req = Some (Bearer t) \<and> signedWith t = signingSecret
                           \<and> userId t = Some i) \<and> int4 (tokenVersion u + 1)"
      with t(1,4) have "signedWith t = signingSecret" "k = i" by auto
      with w assms have "w = u" by simp
      with a \<open>signedWith t = signingSecret\<close> False show False by simp
    qed
    then show ?thesis using rs so same assms by (auto simp: tokenVersion_of_def)
  qed
qed

lemma store_max_ann:
  "row store_max (Some ann_id) = Some (ann\<lparr>refreshToken := Some max_refresh, tokenVersion := 2147483647\<rparr>)"
  by (simp add: row_def store_max_def ann_def)

text \<open>
  Claim C1 fails on the code. A sign-out is answered 200 and leaves \<open>tokenVersion\<close> and
  the stored refresh token as they are, so that the refresh token issued before the
  sign-out is still answered 200 after it, in two cases. First, Ann's \<open>tokenVersion\<close>
  is 2147483647, the largest value of the \<open>INTEGER\<close> column: the update that writes
  the incremented version is refused by the store, and the inner \<open>catch\<close> of
  \<open>signOut\<close> swallows the error. Second, the deployment's \<open>JWT_SECRET\<close> is not the key
  written in the controller: the middleware accepts a token signed with \<open>JWT_SECRET\<close>,
  \<open>signOut\<close> then verifies it with the controller's key, and the same \<open>catch\<close>
  swallows the failure.
\<close>

theorem signOut_without_increment:
  "tokenVersion_of store_max ann_id = Some 2147483647
   \<and> route_signout env0 store_max ann_request 5000 =
       (reply 200 NoData,
        store_max\<lparr>tokenBlacklist := {ann_token}, timers := [(86405000, ann_token)]\<rparr>)
   \<and> tokenVersion_of (store_max\<lparr>tokenBlacklist := {ann_token}, timers := [(86405000, ann_token)]\<rparr>)
        ann_id = Some 2147483647
   \<and> status (fst (refreshToken_handler env0
                     (store_max\<lparr>tokenBlacklist := {ann_token}, timers := [(86405000, ann_token)]\<rparr>)
                     (empty_request\<lparr>body_refreshToken := Some max_refresh\<rparr>) 6000)) = 200
   \<and> tokenVersion_of store1 ann_id = Some 0
   \<and> route_signout env_k store1 k_request 5000 =
       (reply 200 NoData, store1\<lparr>tokenBlacklist := {k_token}\<rparr>)
   \<and> tokenVersion_of (store1\<lparr>tokenBlacklist := {k_token}\<rparr>) ann_id = Some 0
   \<and> status (fst (refreshToken_handler env_k (store1\<lparr>tokenBlacklist := {k_token}\<rparr>)
                     (empty_request\<lparr>body_refreshToken := Some ann_refresh\<rparr>) 6000)) = 200"
proof -
  let ?m = "store_max\<lparr>tokenBlacklist := {ann_token}, timers := [(86405000, ann_token)]\<rparr>"
  let ?k = "store1\<lparr>tokenBlacklist := {k_token}\<rparr>"
  have um: "users ?m = users store_max" and uk: "users ?k = users store1" by simp_all
  have rm: "row ?m (Some ann_id) = Some (ann\<lparr>refreshToken := Some max_refresh, tokenVersion := 2147483647\<rparr>)"
    using row_users_cong[OF um] store_max_ann by simp
  have rk: "row ?k (Some ann_id) = Some (ann\<lparr>refreshToken := Some ann_refresh\<rparr>)"
    using row_users_cong[OF uk] store1_ann by simp
  have ids: "userId ann_token = Some ann_id" "userId max_refresh = Some ann_id"
    "userId ann_refresh = Some ann_id"
    by (simp_all add: ann_token_def max_refresh_def ann_refresh_def)
  have uuid_k: "pg_uuid env_k ann_id" using env0_uuid(1) by (simp add: env_k_def env0_def)
  have 1: "tokenVersion_of store_max ann_id = Some 2147483647"
    by (simp add: tokenVersion_of_def store_max_ann)
  have am: "authorize env0 store_max ann_request 5000 = Inr ann_id"
    by (simp add: authorize_Inr ann_request_def empty_request_def ann_token_def store_max_ann
          jwt_verify_def env0_uuid ids_differ)
       (simp add: store_max_def env0_def signingSecret_nonempty)
  have sm: "signOut env0 store_max (ann_request\<lparr>req_user := Some ann_id\<rparr>) 5000 = (reply 200 NoData, ?m)"
  proof -
    let ?st2 = "store_max\<lparr>tokenBlacklist := insert ann_token (tokenBlacklist store_max),
                  timers := timers store_max @ [(expiresAt ann_token * 1000, ann_token)]\<rparr>"
    have e: "?st2 = ?m" by (simp add: store_max_def ann_token_def)
    have f: "findByPk env0 ?m (userId ann_token)
               = Inr (Some (ann\<lparr>refreshToken := Some max_refresh, tokenVersion := 2147483647\<rparr>))"
      using rm by (simp add: findByPk_def ids(1) env0_uuid)
    have s: "user_save env0 ?m (ann\<lparr>tokenVersion := 2147483648, refreshToken := None\<rparr>)
               = Inl SequelizeDatabaseError"
      using rm by (simp add: user_save_def ann_def beforeUpdate_def update_fits_def int4_def)
    have v: "jwt_verify ann_token (Some signingSecret) 5000 = Inr ann_token"
      by (simp add: jwt_verify_def ann_token_def signingSecret_nonempty)
    have tt: "truthy_token (Some ann_token)" "truthy (userId ann_token)"
      by (simp_all add: truthy_token_def truthy_def ann_token_def ids_differ)
    show ?thesis
      unfolding signOut_def
      by (simp add: extractToken_def ann_request_def empty_request_def tt v Let_def e f s)
  qed
  have 2: "route_signout env0 store_max ann_request 5000 = (reply 200 NoData, ?m)"
    by (simp add: route_signout_def protected_def am sm)
  have 3: "tokenVersion_of ?m ann_id = Some 2147483647"
    by (simp add: tokenVersion_of_def rm)
  have 4: "status (fst (refreshToken_handler env0 ?m
                     (empty_request\<lparr>body_refreshToken := Some max_refresh\<rparr>) 6000)) = 200"
  proof -
    have f: "findByPk env0 ?m (userId max_refresh)
               = Inr (Some (ann\<lparr>refreshToken := Some max_refresh, tokenVersion := 2147483647\<rparr>))"
      using rm by (simp add: findByPk_def ids(2) env0_uuid)
    have v: "jwt_verify max_refresh (Some signingSecret) 6000 = Inr max_refresh"
      by (simp add: jwt_verify_def max_refresh_def signingSecret_nonempty)
    show ?thesis
      by (simp add: refreshToken_handler_def truthy_token_def v f reply_def)
         (simp add: max_refresh_def)
  qed
  have 5: "tokenVersion_of store1 ann_id = Some 0"
    by (simp add: tokenVersion_of_def store1_ann ann_def)
  have ak: "authorize env_k store1 k_request 5000 = Inr ann_id"
    by (simp add: authorize_Inr k_request_def empty_request_def k_token_def store1_ann
          jwt_verify_def uuid_k ids_differ)
       (simp add: store1_def env_k_def)
  have sk: "signOut env_k store1 (k_request\<lparr>req_user := Some ann_id\<rparr>) 5000 = (reply 200 NoData, ?k)"
  proof -
    have v: "jwt_verify k_token (Some signingSecret) 5000 = Inl JsonWebTokenError"
      by (simp add: jwt_verify_def k_token_def signingSecret_def)
    have tt: "truthy_token (Some k_token)" by (simp add: truthy_token_def k_token_def)
    have e: "store1\<lparr>tokenBlacklist := insert k_token (tokenBlacklist store1)\<rparr> = ?k"
      by (simp add: store1_def)
    show ?thesis
      unfolding signOut_def
      by (simp add: extractToken_def k_request_def empty_request_def tt v Let_def e)
  qed
  have 6: "route_signout env_k store1 k_request 5000 = (reply 200 NoData, ?k)"
    by (simp add: route_signout_def protected_def ak sk)
  have 7: "tokenVersion_of ?k ann_id = Some 0"
    by (simp add: tokenVersion_of_def rk ann_def)
  have 8: "status (fst (refreshToken_handler env_k ?k
                     (empty_request\<lparr>body_refreshToken := Some ann_refresh\<rparr>) 6000)) = 200"
  proof -
    have f: "findByPk env_k ?k (userId ann_refresh)
               = Inr (Some (ann\<lparr>refreshToken := Some ann_refresh\<rparr>))"
      using rk by (simp add: findByPk_def ids(3) uuid_k)
    have v: "jwt_verify ann_refresh (Some signingSecret) 6000 = Inr ann_refresh"
      by (simp add: jwt_verify_def ann_refresh_def signingSecret_nonempty)
    show ?thesis
      by (simp add: refreshToken_handler_def truthy_token_def v f reply_def)
         (simp add: ann_refresh_def ann_def)
  qed
  show ?thesis using 1 2 3 4 5 6 7 8 by simp
qed


section \<open>Adding and removing links\<close>

lemma user_update_links:
  assumes "row st (Some i) = Some u"
  shows "user_update d st u (no_values\<lparr>v_youtubeLinks := Some ls\<rparr>) =
           Inr (u\<lparr>youtubeLinks := Some ls\<rparr>,
                st\<lparr>users := map (\<lambda>r. if uid r = i then u\<lparr>youtubeLinks := Some ls\<rparr> else r) (users st)\<rparr>)"
proof -
  have ui: "uid u = i" using assms by (rule row_Some_uid)
  have sv: "set_values u (no_values\<lparr>v_youtubeLinks := Some ls\<rparr>) = u\<lparr>youtubeLinks := Some ls\<rparr>"
    by (simp add: set_values_def no_values_def)
  have old: "row st (Some (uid (u\<lparr>youtubeLinks := Some ls\<rparr>))) = Some u"
    using assms ui by simp
  have fits: "update_fits u (u\<lparr>youtubeLinks := Some ls\<rparr>)" by (simp add: update_fits_def)
  show ?thesis
    using user_save_total_same[OF old _ _ _ fits, of d] ui by (simp add: user_update_def sv)
qed

lemma row_links_updated:
  assumes "row st (Some i) = Some u"
  shows "row (st\<lparr>users := map (\<lambda>r. if uid r = i then u\<lparr>youtubeLinks := Some ls\<rparr> else r) (users st)\<rparr>)
           (Some j) = (if j = i then Some (u\<lparr>youtubeLinks := Some ls\<rparr>) else row st (Some j))"
proof -
  have "uid (u\<lparr>youtubeLinks := Some ls\<rparr>) = i" using row_Some_uid[OF assms] by simp
  from row_replace[OF this, of st j] assms show ?thesis by simp
qed

lemma length_filter_same: "(length (filter P xs) = length xs) = (\<forall>x \<in> set xs. P x)"
proof (induction xs)
  case Nil
  then show ?case by simp
next
  case (Cons x xs)
  have le: "length (filter P xs) \<le> length xs" by (rule length_filter_le)
  show ?case
  proof (cases "P x")
    case True
    then show ?thesis using Cons by simp
  next
    case False
    with le show ?thesis by (simp del: length_filter_le)
  qed
qed

lemma removeYoutubeLink_effect:
  assumes "req_user req = Some i" "row st (Some i) = Some u" "pg_uuid d i"
  shows "removeYoutubeLink d st req =
           (if \<forall>l \<in> set (currentLinks u). lid l \<noteq> Some (params_linkId req)
            then (reply 404 NoData, st)
            else (reply 200 (UserData (public_user
                    (u\<lparr>youtubeLinks := Some (filter (\<lambda>l. lid l \<noteq> Some (params_linkId req))
                                                   (currentLinks u))\<rparr>))),
                  st\<lparr>users := map (\<lambda>r. if uid r = i
                                         then u\<lparr>youtubeLinks :=
                                                  Some (filter (\<lambda>l. lid l \<noteq> Some (params_linkId req))
                                                          (currentLinks u))\<rparr>
                                         else r) (users st)\<rparr>))"
proof -
  let ?f = "filter (\<lambda>l. lid l \<noteq> Some (params_linkId req)) (currentLinks u)"
  have len: "(length (currentLinks u) = length ?f) =
             (\<forall>l \<in> set (currentLinks u). lid l \<noteq> Some (params_linkId req))"
    using length_filter_same[of "\<lambda>l. lid l \<noteq> Some (params_linkId req)" "currentLinks u"] by auto
  show ?thesis
    using assms
    by (simp add: removeYoutubeLink_def Let_def len user_update_links[OF assms(2)]
          row_links_updated[OF assms(2)] findByPk_def)
qed

text \<open>
  Claim C8. For every existing user and every \<open>linkId\<close> that is the id of none of that
  user's links, \<open>removeYoutubeLink\<close> answers 404 and leaves the whole state, hence the
  user's row and its \<open>youtubeLinks\<close>, as it is. The case is recognised by the filtered
  collection having the length of the original one, and 404 is answered in no other
  case.
\<close>

theorem remove_missing_link:
  assumes "req_user req = Some i" and "findByPk d st (Some i) = Inr (Some u)"
  shows "((\<forall>l \<in> set (currentLinks u). lid l \<noteq> Some (params_linkId req)) \<longrightarrow>
            removeYoutubeLink d st req = (reply 404 NoData, st))
         \<and> ((\<forall>l \<in> set (currentLinks u). lid l \<noteq> Some (params_linkId req)) \<longleftrightarrow>
              length (filter (\<lambda>l. lid l \<noteq> Some (params_linkId req)) (currentLinks u))
                = length (currentLinks u))
         \<and> (status (fst (removeYoutubeLink d st req)) = 404 \<longleftrightarrow>
              (\<forall>l \<in> set (currentLinks u). lid l \<noteq> Some (params_linkId req)))"
proof -
  have len: "(length (filter (\<lambda>l. lid l \<noteq> Some (params_linkId req)) (currentLinks u))
                = length (currentLinks u)) =
             (\<forall>l \<in> set (currentLinks u). lid l \<noteq> Some (params_linkId req))"
    by (rule length_filter_same)
  from assms(2) have r: "row st (Some i) = Some u" and p: "pg_uuid d i"
    by (simp_all add: findByPk_Inr_Some uuid_or_absent_def)
  show ?thesis
    using removeYoutubeLink_effect[OF assms(1) r p] len by (simp add: reply_def)
qed

lemma store0_ann_found: "findByPk env0 store0 (Some ann_id) = Inr (Some ann)"
  by (simp add: findByPk_def env0_uuid store0_ann)

theorem remove_missing_link_witness:
  "req_user (ann_request\<lparr>req_user := Some ann_id, params_linkId := ''99''\<rparr>) = Some ann_id
   \<and> findByPk env0 store0 (Some ann_id) = Inr (Some ann)
   \<and> map lid (currentLinks ann) = [Some ''10'', Some ''30'']
   \<and> removeYoutubeLink env0 store0 (ann_request\<lparr>req_user := Some ann_id, params_linkId := ''99''\<rparr>)
       = (reply 404 NoData, store0)"
proof -
  let ?req = "ann_request\<lparr>req_user := Some ann_id, params_linkId := ''99''\<rparr>"
  have r: "req_user ?req = Some ann_id" by simp
  have n: "\<forall>l \<in> set (currentLinks ann). lid l \<noteq> Some ''99''"
    by (simp add: currentLinks_def ann_def video_def)
  from remove_missing_link[OF r store0_ann_found] n
  have "removeYoutubeLink env0 store0 ?req = (reply 404 NoData, store0)" by simp
  moreover have "map lid (currentLinks ann) = [Some ''10'', Some ''30'']"
    by (simp add: currentLinks_def ann_def video_def)
  ultimately show ?thesis using r store0_ann_found by simp
qed

lemma addYoutubeLink_effect:
  assumes "req_user req = Some i" "row st (Some i) = Some u" "pg_uuid d i"
    "validate_addYoutubeLink req"
  shows "addYoutubeLink d st req now =
           (reply 201
              (LinkAdded \<lparr>lid = Some (toString now), url = body_youtubeUrl req,
                          title = body_title req, addedAt = Some now\<rparr>
                 (public_user
                    (u\<lparr>youtubeLinks :=
                         Some (currentLinks u @
                               [\<lparr>lid = Some (toString now), url = body_youtubeUrl req,
                                 title = body_title req, addedAt = Some now\<rparr>])\<rparr>))),
            st\<lparr>users :=
                 map (\<lambda>r. if uid r = i
                          then u\<lparr>youtubeLinks :=
                                   Some (currentLinks u @
                                         [\<lparr>lid = Some (toString now), url = body_youtubeUrl req,
                                           title = body_title req, addedAt = Some now\<rparr>])\<rparr>
                          else r) (users st)\<rparr>)"
  using assms
  by (simp add: addYoutubeLink_def Let_def user_update_links[OF assms(2)]
        row_links_updated[OF assms(2)] findByPk_def)

lemma addYoutubeLink_201:
  assumes "addYoutubeLink d st req now = (resp, st1)" "status resp = 201"
  shows "validate_addYoutubeLink req"
  using assms
  by (auto simp: addYoutubeLink_def Let_def reply_def errorMiddleware_def
           split: if_splits option.splits sum.splits prod.splits error.splits)

text \<open>When the numeral of the clock reading is not yet the id of one of the user's
  links, removing the link that was added gives back the former list of links.\<close>

lemma add_then_remove_fresh:
  assumes "req_user req = Some i" and "row st (Some i) = Some u" and "pg_uuid d i"
    and "addYoutubeLink d st req now = (resp, st1)" and "status resp = 201"
    and "\<forall>l \<in> set (currentLinks u). lid l \<noteq> Some (toString now)"
    and "req_user req' = Some i" and "params_linkId req' = toString now"
  shows "status (fst (removeYoutubeLink d st1 req')) = 200"
    and "links_of (snd (removeYoutubeLink d st1 req')) i = currentLinks u"
proof -
  let ?new = "\<lparr>lid = Some (toString now), url = body_youtubeUrl req,
               title = body_title req, addedAt = Some now\<rparr>"
  let ?u1 = "u\<lparr>youtubeLinks := Some (currentLinks u @ [?new])\<rparr>"
  have v: "validate_addYoutubeLink req" using addYoutubeLink_201[OF assms(4,5)] .
  note add = addYoutubeLink_effect[OF assms(1,2,3) v, of now]
  from add assms(4) have
    st1: "st1 = st\<lparr>users := map (\<lambda>r. if uid r = i then ?u1 else r) (users st)\<rparr>"
    by simp
  have fi: "row st1 (Some i) = Some ?u1"
    unfolding st1 using row_links_updated[OF assms(2), of _ i] by simp
  have cl: "currentLinks ?u1 = currentLinks u @ [?new]" by (simp add: currentLinks_def)
  have fl: "filter (\<lambda>l. lid l \<noteq> Some (params_linkId req')) (currentLinks ?u1) = currentLinks u"
    using assms(6,8) cl by simp
  have ex: "\<not> (\<forall>l \<in> set (currentLinks ?u1). lid l \<noteq> Some (params_linkId req'))"
    using assms(8) cl by simp
  let ?u2 = "?u1\<lparr>youtubeLinks := Some (currentLinks u)\<rparr>"
  have rm: "removeYoutubeLink d st1 req' =
              (reply 200 (UserData (public_user ?u2)),
               st1\<lparr>users := map (\<lambda>r. if uid r = i then ?u2 else r) (users st1)\<rparr>)"
    using removeYoutubeLink_effect[OF assms(7) fi assms(3)] ex fl by simp
  have f2: "row (snd (removeYoutubeLink d st1 req')) (Some i) = Some ?u2"
    unfolding rm snd_conv using row_links_updated[OF fi, of _ i] by simp
  show "status (fst (removeYoutubeLink d st1 req')) = 200" by (simp add: rm reply_def)
  show "links_of (snd (removeYoutubeLink d st1 req')) i = currentLinks u"
    by (simp add: links_of_def f2 currentLinks_def)
qed

lemma toString_5: "toString 5 = ''5''"
  by (simp add: toString_def decimal.simps)

lemma add_request_valid: "validate_addYoutubeLink add_request"
  by (simp add: validate_addYoutubeLink_def add_request_def empty_request_def youtube_pattern_def
        youtube_heads_def only_keys_def body_keys_def)

lemma add_request_user: "req_user add_request = Some ann_id"
  by (simp add: add_request_def)

lemma remove_request_user: "req_user remove_request = Some ann_id" "params_linkId remove_request = ''5''"
  by (simp_all add: remove_request_def)

text \<open>
  Claim C7 fails on the code. The id of a new link is the decimal numeral of the clock
  reading (the source calls it a simple unique id), and \<open>removeYoutubeLink\<close> takes away
  every link with the given id. Ann, who has the links 10 and 30, adds a link at clock
  reading 5 and adds a second link at the same clock reading; both adds are answered 201
  and both links get the id 5. Removing the link with the id that the second add
  returned is answered 200 and leaves the links 10 and 30: not the collection as it was
  before the second add, which had the links 10, 30 and 5.
\<close>

theorem add_then_remove_same_clock:
  "map lid (links_of store0 ann_id) = [Some ''10'', Some ''30'']
   \<and> status (fst (addYoutubeLink env0 store0 add_request 5)) = 201
   \<and> map lid (links_of store_a ann_id) = [Some ''10'', Some ''30'', Some ''5'']
   \<and> (\<exists>l obj. fst (addYoutubeLink env0 store_a add_request 5) = reply 201 (LinkAdded l obj)
          \<and> lid l = Some ''5'')
   \<and> map lid (links_of store_b ann_id) = [Some ''10'', Some ''30'', Some ''5'', Some ''5'']
   \<and> params_linkId remove_request = ''5''
   \<and> status (fst (removeYoutubeLink env0 store_b remove_request)) = 200
   \<and> map lid (links_of store_c ann_id) = [Some ''10'', Some ''30'']"
proof -
  let ?new = "\<lparr>lid = Some ''5'', url = body_youtubeUrl add_request,
               title = body_title add_request, addedAt = Some 5\<rparr>"
  let ?ua = "ann\<lparr>youtubeLinks := Some [video ''10'' 10, video ''30'' 30, ?new]\<rparr>"
  let ?ub = "ann\<lparr>youtubeLinks := Some [video ''10'' 10, video ''30'' 30, ?new, ?new]\<rparr>"
  let ?uc = "ann\<lparr>youtubeLinks := Some [video ''10'' 10, video ''30'' 30]\<rparr>"
  have cl: "currentLinks ann = [video ''10'' 10, video ''30'' 30]"
    by (simp add: currentLinks_def ann_def)
  have a: "addYoutubeLink env0 store0 add_request 5 =
             (reply 201 (LinkAdded ?new (public_user ?ua)),
              store0\<lparr>users := map (\<lambda>r. if uid r = ann_id then ?ua else r) (users store0)\<rparr>)"
    using addYoutubeLink_effect[OF add_request_user store0_ann env0_uuid(1) add_request_valid, of 5]
    by (simp add: toString_5 cl)
  have ra: "row store_a (Some ann_id) = Some ?ua"
    unfolding store_a_def a snd_conv
    using row_replace[of ?ua ann_id store0 ann_id] store0_ann by (simp add: ann_def)
  have cla: "currentLinks ?ua = [video ''10'' 10, video ''30'' 30, ?new]"
    by (simp add: currentLinks_def)
  have b: "addYoutubeLink env0 store_a add_request 5 =
             (reply 201 (LinkAdded ?new (public_user ?ub)),
              store_a\<lparr>users := map (\<lambda>r. if uid r = ann_id then ?ub else r) (users store_a)\<rparr>)"
    using addYoutubeLink_effect[OF add_request_user ra env0_uuid(1) add_request_valid, of 5]
    by (simp add: toString_5 cla)
  have rb: "row store_b (Some ann_id) = Some ?ub"
    unfolding store_b_def b snd_conv
    using row_replace[of ?ub ann_id store_a ann_id] ra by (simp add: ann_def)
  have clb: "currentLinks ?ub = [video ''10'' 10, video ''30'' 30, ?new, ?new]"
    by (simp add: currentLinks_def)
  have c: "removeYoutubeLink env0 store_b remove_request =
             (reply 200 (UserData (public_user ?uc)),
              store_b\<lparr>users := map (\<lambda>r. if uid r = ann_id then ?uc else r) (users store_b)\<rparr>)"
  proof -
    have ex: "\<not> (\<forall>l \<in> set (currentLinks ?ub). lid l \<noteq> Some (params_linkId remove_request))"
      by (simp add: clb remove_request_user(2))
    have fl: "filter (\<lambda>l. lid l \<noteq> Some (params_linkId remove_request)) (currentLinks ?ub)
                = [video ''10'' 10, video ''30'' 30]"
      unfolding clb by (simp add: remove_request_user(2) video_def)
    show ?thesis
      using removeYoutubeLink_effect[OF remove_request_user(1) rb env0_uuid(1)] ex fl by simp
  qed
  have rc: "row store_c (Some ann_id) = Some ?uc"
    unfolding store_c_def c snd_conv
    using row_replace[of ?uc ann_id store_b ann_id] rb by (simp add: ann_def)
  have 1: "map lid (links_of store0 ann_id) = [Some ''10'', Some ''30'']"
    by (simp add: links_of_def store0_ann cl video_def)
  have 2: "status (fst (addYoutubeLink env0 store0 add_request 5)) = 201"
    by (simp add: a reply_def)
  have 3: "map lid (links_of store_a ann_id) = [Some ''10'', Some ''30'', Some ''5'']"
    by (simp add: links_of_def ra currentLinks_def video_def)
  have 4: "\<exists>l obj. fst (addYoutubeLink env0 store_a add_request 5) = reply 201 (LinkAdded l obj)
          \<and> lid l = Some ''5''"
  proof (intro exI conjI)
    show "fst (addYoutubeLink env0 store_a add_request 5)
            = reply 201 (LinkAdded ?new (public_user ?ub))" by (simp add: b)
    show "lid ?new = Some ''5''" by simp
  qed
  have 5: "map lid (links_of store_b ann_id) = [Some ''10'', Some ''30'', Some ''5'', Some ''5'']"
    by (simp add: links_of_def rb currentLinks_def video_def)
  have 6: "status (fst (removeYoutubeLink env0 store_b remove_request)) = 200"
    by (simp add: c reply_def)
  have 7: "map lid (links_of store_c ann_id) = [Some ''10'', Some ''30'']"
    by (simp add: links_of_def rc currentLinks_def video_def)
  show ?thesis using 1 2 3 4 5 6 7 remove_request_user(2) by simp
qed

section \<open>The frame of a profile update\<close>

lemma set_values_frozen_columns:
  "v_password v = None \<Longrightarrow> v_youtubeLinks v = None \<Longrightarrow>
   frozen_columns (set_values u v) = frozen_columns u"
  by (simp add: frozen_columns_def set_values_def)

text \<open>
  Claim C10. Whatever \<open>updateProfile\<close> answers, every row keeps its id, \<open>password\<close>,
  \<open>refreshToken\<close>, \<open>tokenVersion\<close>, \<open>youtubeLinks\<close> and creation date, so that only
  \<open>name\<close>, \<open>email\<close>, \<open>bio\<close>, \<open>location\<close> and \<open>profilePicture\<close> can differ afterwards;
  that last column differs only when a file was uploaded; the rows of all users other than
  the requesting one are unchanged, and so is the blacklist.
\<close>

theorem updateProfile_frame:
  assumes "updateProfile d st req = (resp, st')"
  shows "(\<forall>j. map_option frozen_columns (row st' (Some j))
               = map_option frozen_columns (row st (Some j)))
         \<and> (file_path req = None \<longrightarrow>
              (\<forall>j. map_option profilePicture (row st' (Some j))
                     = map_option profilePicture (row st (Some j))))
         \<and> (\<forall>j. req_user req \<noteq> Some j \<longrightarrow> row st' (Some j) = row st (Some j))
         \<and> tokenBlacklist st' = tokenBlacklist st \<and> timers st' = timers st"
proof -
  from updateProfile_cases[OF assms] show ?thesis
  proof
    assume "st' = st" then show ?thesis by simp
  next
    assume "\<exists>i u u'. req_user req = Some i \<and> row st (Some i) = Some u
              \<and> user_update d st u (updateData u req) = Inr (u', st')"
    then obtain i u u' where r: "req_user req = Some i" and f: "row st (Some i) = Some u"
      and up: "user_update d st u (updateData u req) = Inr (u', st')" by blast
    have np: "v_password (updateData u req) = None" and nl: "v_youtubeLinks (updateData u req) = None"
      using updateData_frozen[of u req] by simp_all
    have fj: "row st' (Some j) =
                (if j = i then Some (set_values u (updateData u req)) else row st (Some j))" for j
      by (rule user_update_no_password(2)[OF up f np])
    have fz: "frozen_columns (set_values u (updateData u req)) = frozen_columns u"
      by (rule set_values_frozen_columns[OF np nl])
    have pp: "profilePicture (set_values u (updateData u req)) = profilePicture u"
      if "file_path req = None"
      using that by (simp add: set_values_def updateData_def)
    show ?thesis
      using fj fz pp f r user_update_frame[OF up] by simp
  qed
qed

theorem updateProfile_frame_witness:
  "status (fst (updateProfile env0 store0 profile_request)) = 200
   \<and> map_option name (row (snd (updateProfile env0 store0 profile_request)) (Some ann_id))
       = Some ''Ann B. Lee''
   \<and> map_option frozen_columns (row (snd (updateProfile env0 store0 profile_request)) (Some ann_id))
       = Some (frozen_columns ann)
   \<and> row (snd (updateProfile env0 store0 profile_request)) (Some bob_id)
       = row store0 (Some bob_id)"
proof -
  let ?up = "updateProfile env0 store0 profile_request"
  have eq: "?up = (fst ?up, snd ?up)" by simp
  note t = updateProfile_frame[OF eq]
  have v: "validate_updateProfile env0 profile_request"
    by (simp add: validate_updateProfile_def profile_request_def empty_request_def
          only_keys_def body_keys_def)
  have ud: "set_values ann (updateData ann profile_request) = ann\<lparr>name := ''Ann B. Lee'', bio := Some ''hello''\<rparr>"
    by (simp add: set_values_def updateData_def profile_request_def empty_request_def truthy_def)
  have old: "row store0 (Some (uid (ann\<lparr>name := ''Ann B. Lee'', bio := Some ''hello''\<rparr>))) = Some ann"
    using store0_ann by (simp add: ann_def)
  have sv: "user_update env0 store0 ann (updateData ann profile_request) =
              Inr (ann\<lparr>name := ''Ann B. Lee'', bio := Some ''hello''\<rparr>,
                   store0\<lparr>users := map (\<lambda>r. if uid r = ann_id
                                             then ann\<lparr>name := ''Ann B. Lee'', bio := Some ''hello''\<rparr>
                                             else r) (users store0)\<rparr>)"
    using old by (simp add: user_update_def ud user_save_def valid_name_def beforeUpdate_def
                        update_fits_def varchar_def)
                 (simp add: ann_def Let_def)
  have f2: "row (store0\<lparr>users := map (\<lambda>r. if uid r = ann_id
                                             then ann\<lparr>name := ''Ann B. Lee'', bio := Some ''hello''\<rparr>
                                             else r) (users store0)\<rparr>) (Some ann_id)
              = Some (ann\<lparr>name := ''Ann B. Lee'', bio := Some ''hello''\<rparr>)"
    by (simp add: row_def store0_def ann_def)
  have fa: "findByPk env0 store0 (Some ann_id) = Inr (Some ann)" by (rule store0_ann_found)
  have fb: "findByPk env0 (store0\<lparr>users := map (\<lambda>r. if uid r = ann_id
                                             then ann\<lparr>name := ''Ann B. Lee'', bio := Some ''hello''\<rparr>
                                             else r) (users store0)\<rparr>) (Some ann_id)
              = Inr (Some (ann\<lparr>name := ''Ann B. Lee'', bio := Some ''hello''\<rparr>))"
    using f2 by (simp add: findByPk_def env0_uuid)
  have up: "?up = (reply 200 (UserData (public_user (ann\<lparr>name := ''Ann B. Lee'', bio := Some ''hello''\<rparr>))),
                   store0\<lparr>users := map (\<lambda>r. if uid r = ann_id
                                             then ann\<lparr>name := ''Ann B. Lee'', bio := Some ''hello''\<rparr>
                                             else r) (users store0)\<rparr>)"
    using v fa sv fb
    by (simp add: updateProfile_def)
       (simp add: profile_request_def empty_request_def truthy_def)
  have n: "map_option name (row (snd ?up) (Some ann_id)) = Some ''Ann B. Lee''"
    and s: "status (fst ?up) = 200"
    unfolding up using f2 by (simp_all add: reply_def)
  have ru: "req_user profile_request \<noteq> Some bob_id" by (simp add: profile_request_def ids_differ)
  from t ru have "row (snd ?up) (Some bob_id) = row store0 (Some bob_id)" by blast
  moreover from t have "map_option frozen_columns (row (snd ?up) (Some ann_id))
       = map_option frozen_columns (row store0 (Some ann_id))" by blast
  ultimately show ?thesis using n s store0_ann by simp
qed


section \<open>No password in any response\<close>

lemma keys_assign:
  "map fst (assign k v obj) = (if k \<in> set (map fst obj) then map fst obj else map fst obj @ [k])"
proof -
  have "map fst (map (\<lambda>kv. if fst kv = k then (k, v) else kv) obj) = map fst obj"
    by (induction obj) auto
  then show ?thesis by (simp add: assign_def)
qed

lemma has_key_assign: "has_key k (assign k' v obj) = (k = k' \<or> has_key k obj)"
  unfolding has_key_def keys_assign by auto

lemma has_key_exclude: "has_key k (exclude ks obj) = (k \<notin> set ks \<and> has_key k obj)"
  by (auto simp: has_key_def exclude_def)

lemma has_key_delete: "has_key k (delete k' obj) = (k \<noteq> k' \<and> has_key k obj)"
  by (auto simp: has_key_def delete_def)

lemma public_user_no_password: "\<not> has_key ''password'' (public_user u)"
  by (simp add: public_user_def has_key_assign has_key_exclude sensitive_def)

lemma content_user_no_password: "\<not> has_key ''password'' (c_user (content_item u l now))"
  by (simp add: content_item_def has_key_def)

lemma password_free_NoData [simp]: "password_free (reply s NoData)" "password_free (errorMiddleware e)"
  by (simp_all add: password_free_def reply_def errorMiddleware_def user_objects_def)

lemma password_free_UserData [simp]: "password_free (reply s (UserData (public_user u)))"
  by (simp add: password_free_def reply_def user_objects_def public_user_no_password)

lemma password_free_AccessData [simp]: "password_free (reply s (AccessData a))"
  by (simp add: password_free_def reply_def user_objects_def)

lemma password_free_LinkAdded [simp]: "password_free (reply s (LinkAdded l (public_user u)))"
  by (simp add: password_free_def reply_def user_objects_def public_user_no_password)

lemma password_free_AuthData [simp]:
  "password_free (reply s (AuthData a r (delete ''refreshToken'' (delete ''password'' (toJSON u)))))"
  by (simp add: password_free_def reply_def user_objects_def has_key_delete)

lemma password_free_UserList [simp]: "password_free (reply s (UserList (map public_user us) pg))"
  by (simp add: password_free_def reply_def user_objects_def public_user_no_password)

lemma password_free_signUp: "password_free (fst (signUp d st req uuid now))"
  by (simp add: signUp_def split: option.splits sum.splits prod.splits)

lemma password_free_signIn: "password_free (fst (signIn d st req now))"
  by (simp add: signIn_def split: option.splits sum.splits prod.splits)

lemma password_free_refresh: "password_free (fst (refreshToken_handler d st req now))"
  by (simp add: refreshToken_handler_def split: option.splits sum.splits)

lemma password_free_signOut: "password_free (fst (signOut d st req now))"
  by (simp add: signOut_def Let_def split: option.splits sum.splits prod.splits)

lemma password_free_getUsers: "password_free (fst (getUsers st req))"
  by (simp add: getUsers_def Let_def)

lemma password_free_getUserById: "password_free (fst (getUserById d st req))"
  by (simp add: getUserById_def split: option.splits sum.splits)

lemma password_free_getProfile: "password_free (fst (getProfile d st req))"
  by (simp add: getProfile_def split: option.splits sum.splits)

lemma password_free_updateProfile: "password_free (fst (updateProfile d st req))"
  by (simp add: updateProfile_def split: option.splits sum.splits prod.splits)

lemma password_free_addYoutubeLink: "password_free (fst (addYoutubeLink d st req now))"
  by (simp add: addYoutubeLink_def Let_def split: option.splits sum.splits prod.splits)

lemma password_free_removeYoutubeLink: "password_free (fst (removeYoutubeLink d st req))"
  by (simp add: removeYoutubeLink_def Let_def split: option.splits sum.splits prod.splits)

lemma flattened_users_password_free: "\<forall>c \<in> set (flattened us now). \<not> has_key ''password'' (c_user c)"
  by (auto simp: flattened_def content_user_no_password)

lemma slice_subset: "set (slice xs a b) \<subseteq> set xs"
  by (auto simp: slice_def Let_def dest: in_set_takeD in_set_dropD)

lemma password_free_getAllContent: "password_free (fst (getAllContent st req now))"
proof (cases "validate_getAllContent req")
  case False
  then show ?thesis by (simp add: getAllContent_def)
next
  case True
  have "\<forall>c \<in> set (spec_feed st sb now). \<not> has_key ''password'' (c_user c)" for sb
    using flattened_users_password_free[of "newest_first (users st)" now] by (simp add: spec_feed_def)
  then have "\<forall>c \<in> set (slice (spec_feed st sb now) a b). \<not> has_key ''password'' (c_user c)" for sb a b
    using slice_subset[of "spec_feed st sb now" a b] by blast
  then show ?thesis
    using True by (simp add: getAllContent_def Let_def feed_eq password_free_def reply_def user_objects_def)
qed

lemma password_free_protected:
  assumes "\<And>s r. password_free (fst (h s r))"
  shows "password_free (fst (protected d h st req now))"
  using assms authorize_Inl[of d st req now]
  by (auto simp: protected_def split: sum.splits)

text \<open>
  Claim C9. No response of the application carries a user object with a \<open>password\<close>
  key: not the user listing, the user by id, the own profile, the sign-up and sign-in
  answers, the content feed (whose entries carry the owner's id, name and picture URL),
  nor the answers to profile updates and to adding or removing a link, whether the
  protected handlers run behind \<open>authorize\<close> or on their own.
\<close>

theorem no_password_returned:
  "(\<forall>obj \<in> set (user_objects (data (fst (step d st op now)))). \<not> has_key ''password'' obj)
   \<and> password_free (fst (getProfile d st req))
   \<and> password_free (fst (updateProfile d st req))
   \<and> password_free (fst (addYoutubeLink d st req now))
   \<and> password_free (fst (removeYoutubeLink d st req))"
proof -
  have "password_free (fst (step d st op now))"
  proof (cases op)
    case (UpdateProfile r)
    have "\<And>s r. password_free (fst (if upload_error r then (reply 400 NoData, s) else updateProfile d s r))"
      by (simp add: password_free_updateProfile)
    from password_free_protected[of "\<lambda>s r. if upload_error r then (reply 400 NoData, s) else updateProfile d s r", OF this]
    show ?thesis using UpdateProfile by (simp add: step_def)
  next
    case (GetProfile r)
    then show ?thesis
      using password_free_protected[of "getProfile d", OF password_free_getProfile]
      by (simp add: step_def)
  next
    case (AddYoutubeLink r)
    then show ?thesis
      using password_free_protected[of "\<lambda>s r. addYoutubeLink d s r now", OF password_free_addYoutubeLink]
      by (simp add: step_def)
  next
    case (RemoveYoutubeLink r)
    then show ?thesis
      using password_free_protected[of "removeYoutubeLink d", OF password_free_removeYoutubeLink]
      by (simp add: step_def)
  next
    case (SignOut r)
    then show ?thesis
      using password_free_protected[of "\<lambda>s r. signOut d s r now", OF password_free_signOut]
      by (simp add: step_def route_signout_def)
  qed (simp_all add: step_def password_free_signUp password_free_signIn
         password_free_refresh password_free_getUsers password_free_getAllContent
         password_free_getUserById)
  then show ?thesis
    by (simp add: password_free_def[symmetric] password_free_getProfile password_free_updateProfile
          password_free_addYoutubeLink password_free_removeYoutubeLink)
qed

lemma signup_example:
  "fst (signUp env0 empty_store signup_request ann_id 5000) =
     reply 201
       (AuthData ann_token ann_refresh
          (delete ''refreshToken'' (delete ''password''
             (toJSON \<lparr>uid = ann_id, name = ''Ann Lee'', email = ''ann@x.com'',
                      password = ''$2a$10$password1'', refreshToken = Some ann_refresh,
                      tokenVersion = 0, bio = None, location = None, profilePicture = None,
                      youtubeLinks = Some [], createdAt = 5000\<rparr>))))"
proof -
  let ?u = "\<lparr>uid = ann_id, name = ''Ann Lee'', email = ''ann@x.com'',
             password = ''$2a$10$password1'', refreshToken = None,
             tokenVersion = 0, bio = None, location = None, profilePicture = None,
             youtubeLinks = Some [], createdAt = 5000\<rparr>"
  let ?st1 = "empty_store\<lparr>users := [?u]\<rparr>"
  have v: "validate_register env0 signup_request"
    by (simp add: validate_register_def signup_request_def empty_request_def env0_def
          only_keys_def body_keys_def)
  have b: "beforeCreate env0
             \<lparr>uid = ann_id, name = ''Ann Lee'', email = ''ann@x.com'', password = ''password1'',
              refreshToken = None, tokenVersion = 0, bio = None, location = None,
              profilePicture = None, youtubeLinks = Some [], createdAt = 5000\<rparr> = ?u"
    by (simp add: beforeCreate_def env0_def)
  have fits: "insert_fits env0 ?u"
    by (simp add: insert_fits_def env0_uuid varchar_def int4_def)
  have c: "User_create env0 empty_store ''Ann Lee'' ''ann@x.com'' ''password1'' ann_id 5000
             = Inr (?u, ?st1)"
    unfolding User_create_def Let_def b
    using fits
    by (simp add: valid_name_def valid_password_def findOne_email_def row_def empty_store_def)
       (simp add: env0_def)
  have r: "row ?st1 (Some (uid (?u\<lparr>refreshToken := Some ann_refresh\<rparr>))) = Some ?u"
    by (simp add: row_def)
  have t: "jwt_sign (Some ann_id) None signingSecret one_day 5000 = ann_token"
    "jwt_sign (Some ann_id) (Some 0) signingSecret seven_days 5000 = ann_refresh"
    by (simp_all add: jwt_sign_def one_day_def seven_days_def ann_token_def ann_refresh_def)
  have s: "user_save env0 ?st1 (?u\<lparr>refreshToken := Some ann_refresh\<rparr>) =
             Inr (?u\<lparr>refreshToken := Some ann_refresh\<rparr>,
                  ?st1\<lparr>users := map (\<lambda>r. if uid r = uid (?u\<lparr>refreshToken := Some ann_refresh\<rparr>)
                                          then ?u\<lparr>refreshToken := Some ann_refresh\<rparr> else r)
                                   (users ?st1)\<rparr>)"
    by (rule user_save_total_same[OF r]) (simp_all add: update_fits_def)
  have g: "generateTokens env0 ?st1 ?u 5000 =
             Inr ((ann_token, ann_refresh), ?u\<lparr>refreshToken := Some ann_refresh\<rparr>,
                  ?st1\<lparr>users := map (\<lambda>r. if uid r = uid (?u\<lparr>refreshToken := Some ann_refresh\<rparr>)
                                          then ?u\<lparr>refreshToken := Some ann_refresh\<rparr> else r)
                                   (users ?st1)\<rparr>)"
    using s by (simp add: generateTokens_def Let_def t)
  have f: "findOne_email empty_store ''ann@x.com'' = None"
    by (simp add: findOne_email_def empty_store_def)
  show ?thesis
    using v f c g by (simp add: signUp_def signup_request_def empty_request_def)
qed

theorem no_password_returned_witness:
  "status (fst (step env0 empty_store (SignUp signup_request ann_id) 5000)) = 201
   \<and> (\<exists>obj. user_objects (data (fst (step env0 empty_store (SignUp signup_request ann_id) 5000))) = [obj]
          \<and> has_key ''email'' obj \<and> \<not> has_key ''password'' obj)"
proof -
  let ?resp = "fst (step env0 empty_store (SignUp signup_request ann_id) 5000)"
  let ?obj = "delete ''refreshToken'' (delete ''password''
             (toJSON \<lparr>uid = ann_id, name = ''Ann Lee'', email = ''ann@x.com'',
                      password = ''$2a$10$password1'', refreshToken = Some ann_refresh,
                      tokenVersion = 0, bio = None, location = None, profilePicture = None,
                      youtubeLinks = Some [], createdAt = 5000\<rparr>))"
  have r: "?resp = reply 201 (AuthData ann_token ann_refresh ?obj)"
    using signup_example by (simp add: step_def)
  have s: "status ?resp = 201" and u: "user_objects (data ?resp) = [?obj]"
    unfolding r by (simp_all add: reply_def user_objects_def)
  have e: "has_key ''email'' ?obj"
    by (simp add: has_key_delete) (simp add: has_key_def toJSON_def)
  from no_password_returned[of env0 empty_store "SignUp signup_request ann_id" 5000] u
  have "\<not> has_key ''password'' ?obj" by simp
  with s u e show ?thesis by simp
qed

section \<open>The primary key stays unique\<close>

text \<open>The premise of unique primary keys holds in the empty store and is kept by every
  operation.\<close>

lemma wf_store_empty: "wf_store empty_store"
  by (simp add: wf_store_def empty_store_def)

lemma user_update_uids:
  "user_update d st u v = Inr (u', st') \<Longrightarrow> map uid (users st') = map uid (users st)"
  using user_save_frame by (auto simp: user_update_def)

lemma generateTokens_uids:
  "generateTokens d st u now = Inr (p, u', st') \<Longrightarrow> map uid (users st') = map uid (users st)"
  using user_save_frame by (auto simp: generateTokens_def Let_def split: sum.splits)

lemma signOut_uids:
  "signOut d st req now = (resp, st') \<Longrightarrow> map uid (users st') = map uid (users st)"
  by (auto simp: signOut_def Let_def split: sum.splits option.splits if_splits prod.splits
           dest!: user_save_frame)

lemma wf_store_step:
  assumes "wf_store st"
  shows "wf_store (snd (step d st op now))"
proof -
  obtain resp st' where s: "step d st op now = (resp, st')" by (cases "step d st op now")
  have keep: "wf_store st'" if "map uid (users st') = map uid (users st)"
    using that assms by (simp add: wf_store_def)
  have prot: "wf_store st'"
    if "protected d h st req now = (resp, st')"
      and "\<And>s r rr s'. h s r = (rr, s') \<Longrightarrow> map uid (users s') = map uid (users s)" for h req
    using protected_cases[OF that(1)] that(2) keep by blast
  have "wf_store st'"
  proof (cases op)
    case (SignUp req uuid)
    with s have su: "signUp d st req uuid now = (resp, st')" by (simp add: step_def)
    from signUp_cases[OF su] consider "st' = st"
      | n e p u where "User_create d st n e p uuid now = Inr (u, st')"
      | n e p u st1 a r u' where "User_create d st n e p uuid now = Inr (u, st1)"
          "generateTokens d st1 u now = Inr ((a, r), u', st')"
      by blast
    then show ?thesis
    proof cases
      case 1 then show ?thesis using assms by simp
    next
      case 2
      note c = User_create_Inr[OF 2]
      have "uuid \<notin> set (map uid (users st))"
        using c(2) by (auto simp: row_def find_None_iff)
      then show ?thesis using c(1,3) assms by (simp add: wf_store_def)
    next
      case 3
      note c = User_create_Inr[OF 3(1)]
      have "uuid \<notin> set (map uid (users st))"
        using c(2) by (auto simp: row_def find_None_iff)
      then have "wf_store st1" using c(1,3) assms by (simp add: wf_store_def)
      then show ?thesis using generateTokens_uids[OF 3(2)] by (simp add: wf_store_def)
    qed
  next
    case (SignIn req)
    with s have "signIn d st req now = (resp, st')" by (simp add: step_def)
    from signIn_cases[OF this] show ?thesis using keep assms generateTokens_uids by blast
  next
    case (Refresh req)
    with s have "refreshToken_handler d st req now = (resp, st')" by (simp add: step_def)
    from tv_refresh[OF this] show ?thesis using assms by simp
  next
    case (SignOut req)
    then show ?thesis using s prot[of "\<lambda>s r. signOut d s r now" req] signOut_uids
      by (simp add: step_def route_signout_def)
  next
    case (GetUsers req)
    then show ?thesis using s snd_reads(1)[of st req] assms by (simp add: step_def)
  next
    case (GetAllContent req)
    then show ?thesis using s snd_reads(3)[of st req now] assms by (simp add: step_def)
  next
    case (GetUserById req)
    then show ?thesis using s snd_reads(2)[of d st req] assms by (simp add: step_def)
  next
    case (GetProfile req)
    then show ?thesis using s prot[of "getProfile d" req] getProfile_state
      by (simp add: step_def) blast
  next
    case (UpdateProfile req)
    have "\<And>s r rr s'. (if upload_error r then (reply 400 NoData, s) else updateProfile d s r) = (rr, s')
            \<Longrightarrow> map uid (users s') = map uid (users s)"
      using updateProfile_cases user_update_uids by (auto split: if_splits) blast
    from prot[of "\<lambda>s r. if upload_error r then (reply 400 NoData, s) else updateProfile d s r" req, OF _ this]
    show ?thesis using UpdateProfile s by (simp add: step_def)
  next
    case (AddYoutubeLink req)
    have "\<And>s r rr s'. addYoutubeLink d s r now = (rr, s') \<Longrightarrow> map uid (users s') = map uid (users s)"
      using addYoutubeLink_cases user_update_uids by blast
    from prot[of "\<lambda>s r. addYoutubeLink d s r now" req, OF _ this]
    show ?thesis using AddYoutubeLink s by (simp add: step_def)
  next
    case (RemoveYoutubeLink req)
    have "\<And>s r rr s'. removeYoutubeLink d s r = (rr, s') \<Longrightarrow> map uid (users s') = map uid (users s)"
      using removeYoutubeLink_cases user_update_uids by blast
    from prot[of "removeYoutubeLink d" req, OF _ this]
    show ?thesis using RemoveYoutubeLink s by (simp add: step_def)
  qed
  then show ?thesis using s by simp
qed
end
